theory Spec2Isabelle
  imports Complex_Main
begin

section \<open>Python values and exceptions\<close>

text \<open>
  The module \<^verbatim>\<open>tools/UI_Tables.py\<close> is the presentation layer over the thermodynamic
  engine of pychemqt.  The functions embedded here are the ones with logic of their own;
  everything the module only calls (the fluid classes, the configuration parser, the
  widget toolkit, pickle) enters the model as data or as a function parameter.

  An exception of the Python code is a value \<open>Inl e\<close> of the result type.
\<close>

datatype py_error =
  IndexError | KeyError | TypeError | ValueError | UnboundLocalError | AttributeError
  | IOError | UnpicklingError

text \<open>Indexing a list or tuple as Python does: a negative index counts from the end.\<close>

definition py_index :: "'a list \<Rightarrow> int \<Rightarrow> py_error + 'a" where
  "py_index xs i =
     (if 0 \<le> i \<and> i < int (length xs) then Inr (xs ! nat i)
      else if i < 0 \<and> - int (length xs) \<le> i then Inr (xs ! nat (int (length xs) + i))
      else Inl IndexError)"

text \<open>Subscripting a dictionary: a missing key raises \<^verbatim>\<open>KeyError\<close>.\<close>

definition py_getitem :: "('k \<rightharpoonup> 'v) \<Rightarrow> 'k \<Rightarrow> py_error + 'v" where
  "py_getitem d k = (case d k of None \<Rightarrow> Inl KeyError | Some v \<Rightarrow> Inr v)"

section \<open>Preferences: \<^verbatim>\<open>get_points\<close>, \<^verbatim>\<open>getMethod\<close>, \<^verbatim>\<open>getClassFluid\<close>\<close>

text \<open>
  The options of section \<^verbatim>\<open>MEOS\<close> of the preference file that these functions read with
  \<^verbatim>\<open>getboolean\<close> and \<^verbatim>\<open>getint\<close>.
\<close>

record preferences =
  coolprop :: bool
  refprop :: bool
  definition_opt :: int

definition get_points :: "preferences \<Rightarrow> nat" where
  "get_points Preferences =
     (let definition = definition_opt Preferences in
      if definition = 1 then 10
      else if definition = 2 then 25
      else if definition = 3 then 50
      else if definition = 4 then 100
      else 5)"

definition getMethod :: "preferences \<Rightarrow> string" where
  "getMethod pref =
     (if coolprop pref \<and> refprop pref then ''REFPROP''
      else if coolprop pref then ''COOLPROP''
      else ''MEOS'')"

text \<open>
  A class of \<^verbatim>\<open>mEoS.__all__\<close> is known here by its position in that list and by the
  compound identifier \<^verbatim>\<open>id\<close> it carries.  \<^verbatim>\<open>getClassFluid\<close> returns an instance of one of
  three classes: \<^verbatim>\<open>refProp.RefProp(ids=[id])\<close>, \<^verbatim>\<open>coolProp.CoolProp(ids=[id])\<close> or the
  \<^verbatim>\<open>mEoS\<close> subclass itself, built without arguments.
\<close>

record meos_class =
  cls_id :: int
  cls_name :: string

datatype thermo_instance =
  RefProp "int list"
  | CoolProp "int list"
  | MEoS meos_class

definition getClassFluid ::
  "preferences \<Rightarrow> meos_class list \<Rightarrow> int \<Rightarrow> py_error + thermo_instance" where
  "getClassFluid pref mEoS_all conf_fluid =
     (if coolprop pref \<and> refprop pref then
        (case py_index mEoS_all conf_fluid of
           Inl e \<Rightarrow> Inl e
         | Inr c \<Rightarrow> Inr (RefProp [cls_id c]))
      else if coolprop pref then
        (case py_index mEoS_all conf_fluid of
           Inl e \<Rightarrow> Inl e
         | Inr c \<Rightarrow> Inr (CoolProp [cls_id c]))
      else
        (case py_index mEoS_all conf_fluid of
           Inl e \<Rightarrow> Inl e
         | Inr c \<Rightarrow> Inr (MEoS c)))"

section \<open>Selecting the properties shown in tables: \<^verbatim>\<open>get_propiedades\<close>\<close>

text \<open>
  The project configuration (a \<^verbatim>\<open>ConfigParser\<close>), section \<^verbatim>\<open>MEoS\<close>: the options this
  module reads.  \<^verbatim>\<open>properties\<close> and \<^verbatim>\<open>propertiesOrder\<close> are the two lists
  \<^verbatim>\<open>get_propiedades\<close> obtains (evaluating the option when it is still a string).
\<close>

record project_config =
  conf_fluid :: int
  conf_eq :: int
  conf_visco :: int
  conf_thermal :: int
  conf_properties :: "bool list"
  conf_propertiesOrder :: "int list"

text \<open>
  An element of \<^verbatim>\<open>ThermoAdvanced.properties()\<close> is a triple (name, key, unit).  The
  loop of \<^verbatim>\<open>get_propiedades\<close> runs over \<^verbatim>\<open>zip(order, booleanos)\<close> and appends to three
  lists; an index outside the property list raises \<^verbatim>\<open>IndexError\<close>.
\<close>

fun get_propiedades_loop ::
  "(string \<times> string \<times> 'u) list \<Rightarrow> (int \<times> bool) list \<Rightarrow>
   string list \<times> string list \<times> 'u list \<Rightarrow> py_error + (string list \<times> string list \<times> 'u list)"
where
  "get_propiedades_loop props [] acc = Inr acc"
| "get_propiedades_loop props ((indice, b) # rest) (propiedades, keys, units) =
     (if b then
        (case py_index props indice of
           Inl e \<Rightarrow> Inl e
         | Inr (name, key, unit) \<Rightarrow>
             get_propiedades_loop props rest
               (propiedades @ [name], keys @ [key], units @ [unit]))
      else get_propiedades_loop props rest (propiedades, keys, units))"

definition get_propiedades ::
  "(string \<times> string \<times> 'u) list \<Rightarrow> project_config \<Rightarrow>
   py_error + (string list \<times> string list \<times> 'u list)" where
  "get_propiedades props config =
     (let booleanos = conf_properties config;
          order = conf_propertiesOrder config
      in get_propiedades_loop props (zip order booleanos) ([], [], []))"

section \<open>The fluid interface\<close>

text \<open>
  The thermodynamic classes (\<^verbatim>\<open>meos.MEoS\<close> and its \<^verbatim>\<open>mEoS\<close> subclasses, \<^verbatim>\<open>CoolProp\<close>,
  \<^verbatim>\<open>RefProp\<close>) are collaborators of this module.  A fluid object is modelled by what the
  module reads from it.  The data of its class (or, for the external libraries, of the
  compound it was built for) is \<open>fluid_class\<close>: the equation limits \<^verbatim>\<open>eq\<close>, the
  correlations \<^verbatim>\<open>_melting\<close> and \<^verbatim>\<open>_sublimation\<close> (a dictionary, or an empty value when the
  fluid has none).  The state computed for an instance is the rest of \<open>fluid\<close>.

  Python numbers are \<open>PInt\<close> and \<open>PFloat\<close>, and \<open>PNone\<close> is \<^verbatim>\<open>None\<close>; floating-point
  numbers are taken as reals, so rounding, infinities and NaN are outside the model.
  \<open>fl_kwargs\<close> is the dictionary \<^verbatim>\<open>kwargs\<close> of the input the instance was given.
\<close>

datatype pyval = PNone | PInt int | PFloat real | PStr string

type_synonym kwargs = "string \<rightharpoonup> pyval"

datatype attr = Scalar real | Vector "real list"

datatype eq_attr =
  EqTuple "(string \<times> real) list list"
  | EqDict "(string \<times> real) list"

record fluid_class =
  cl_is_meos :: bool
  cl_name :: string
  cl_eq :: eq_attr
  cl_melting :: "(string \<times> real) list"
  cl_sublimation :: "(string \<times> real) list"

record fluid =
  fl_class :: fluid_class
  fl_status :: int
  fl_msg :: string
  fl_T :: real
  fl_P :: real
  fl_attr :: "string \<Rightarrow> attr option"
  fl_kwargs :: kwargs

text \<open>
  The operations of the engine that the module calls: \<^verbatim>\<open>fluid._new(**kw)\<close> builds a new
  instance of the fluid's class, \<^verbatim>\<open>fluid.__class__()\<close> an instance without input,
  \<^verbatim>\<open>fluid(**kw)\<close> recomputes the instance with more input, and the two pressure
  correlations are functions of temperature.  What they compute is not this module's
  concern, so they are parameters.
\<close>

record engine =
  eng_new :: "fluid_class \<Rightarrow> kwargs \<Rightarrow> fluid"
  eng_init :: "fluid_class \<Rightarrow> fluid"
  eng_call :: "fluid \<Rightarrow> kwargs \<Rightarrow> fluid"
  eng_Melting_Pressure :: "fluid_class \<Rightarrow> real \<Rightarrow> real"
  eng_Sublimation_Pressure :: "fluid_class \<Rightarrow> real \<Rightarrow> real"

definition and_then :: "py_error + 'a \<Rightarrow> ('a \<Rightarrow> py_error + 'b) \<Rightarrow> py_error + 'b" where
  "and_then m f = (case m of Inl e \<Rightarrow> Inl e | Inr v \<Rightarrow> f v)"

section \<open>\<^verbatim>\<open>calcPoint\<close>: a state point checked against the range of the equation\<close>

text \<open>
  The second argument of \<^verbatim>\<open>calcPoint\<close> is either a dictionary or the project's
  \<^verbatim>\<open>ConfigParser\<close>.
\<close>

datatype config = ConfigDict kwargs | ConfigParser project_config

definition meos_option :: "config \<Rightarrow> kwargs" where
  "meos_option config =
     (case config of
        ConfigDict d \<Rightarrow> d
      | ConfigParser c \<Rightarrow>
          [''eq'' \<mapsto> PInt (conf_eq c), ''visco'' \<mapsto> PInt (conf_visco c),
           ''thermal'' \<mapsto> PInt (conf_thermal c)])"

text \<open>\<^verbatim>\<open>fluid.eq[option["eq"]]\<close>, where \<^verbatim>\<open>eq\<close> is a tuple of dictionaries for an \<^verbatim>\<open>mEoS\<close> class.\<close>

definition eq_subscript :: "eq_attr \<Rightarrow> pyval \<Rightarrow> py_error + (string \<times> real) list" where
  "eq_subscript eq k =
     (case eq of
        EqTuple eqs \<Rightarrow> (case k of PInt i \<Rightarrow> py_index eqs i | _ \<Rightarrow> Inl TypeError)
      | EqDict d \<Rightarrow>
          (case k of
             PStr s \<Rightarrow> (case map_of d s of None \<Rightarrow> Inl KeyError | Some _ \<Rightarrow> Inl TypeError)
           | _ \<Rightarrow> Inl KeyError))"

text \<open>\<^verbatim>\<open>fluid.eq["Tmin"]\<close>, where \<^verbatim>\<open>eq\<close> is one dictionary for a \<^verbatim>\<open>CoolProp\<close> fluid.\<close>

definition eq_key :: "eq_attr \<Rightarrow> string \<Rightarrow> py_error + real" where
  "eq_key eq k =
     (case eq of
        EqDict d \<Rightarrow> py_getitem (map_of d) k
      | EqTuple _ \<Rightarrow> Inl TypeError)"

text \<open>
  The local variables \<^verbatim>\<open>Tmin\<close>, \<^verbatim>\<open>Tmax\<close>, \<^verbatim>\<open>Pmin\<close>, \<^verbatim>\<open>Pmax\<close> of \<^verbatim>\<open>calcPoint\<close>.  They are
  assigned in the branch of the method; where no branch assigns them they stay unbound
  (\<open>None\<close>), and reading them raises \<^verbatim>\<open>UnboundLocalError\<close>.
\<close>

record limits =
  lim_Tmin :: real
  lim_Tmax :: real
  lim_Pmin :: real
  lim_Pmax :: real

definition bound :: "limits option \<Rightarrow> py_error + limits" where
  "bound lims = (case lims of None \<Rightarrow> Inl UnboundLocalError | Some l \<Rightarrow> Inr l)"

definition calcPoint_limits ::
  "engine \<Rightarrow> string \<Rightarrow> fluid \<Rightarrow> config \<Rightarrow> kwargs \<Rightarrow> py_error + (kwargs \<times> limits option)" where
  "calcPoint_limits e method fluid config kwargs =
     (if method = ''MEOS'' then
        (let option = meos_option config;
             kwargs = kwargs ++ option
         in and_then (py_getitem option ''eq'') (\<lambda>eqv.
            and_then (eq_subscript (cl_eq (fl_class fluid)) eqv) (\<lambda>eqd.
            and_then (py_getitem (map_of eqd) ''Tmin'') (\<lambda>Tmin.
            and_then (py_getitem (map_of eqd) ''Tmax'') (\<lambda>Tmax.
            (let Pmin = fl_P (eng_call e fluid [''T'' \<mapsto> PFloat Tmin, ''x'' \<mapsto> PInt 0])
             in and_then (py_getitem (map_of eqd) ''Pmax'') (\<lambda>Pmax.
                Inr (kwargs,
                  Some \<lparr>lim_Tmin = Tmin, lim_Tmax = Tmax, lim_Pmin = Pmin,
                        lim_Pmax = Pmax * 1000\<rparr>))))))))
      else if method = ''COOLPROP'' then
        and_then (eq_key (cl_eq (fl_class fluid)) ''Tmin'') (\<lambda>Tmin.
        and_then (eq_key (cl_eq (fl_class fluid)) ''Tmax'') (\<lambda>Tmax.
        and_then (eq_key (cl_eq (fl_class fluid)) ''Pmin'') (\<lambda>Pmin.
        and_then (eq_key (cl_eq (fl_class fluid)) ''Pmax'') (\<lambda>Pmax.
          Inr (kwargs,
            Some \<lparr>lim_Tmin = Tmin, lim_Tmax = Tmax, lim_Pmin = Pmin, lim_Pmax = Pmax\<rparr>)))))
      else if method = ''REFPROP'' then Inr (kwargs, None)
      else Inr (kwargs, None))"

text \<open>
  \<^verbatim>\<open>v < lo or v > hi\<close> for a keyword value \<^verbatim>\<open>v\<close>; a string or \<^verbatim>\<open>None\<close> cannot be
  compared with a number.
\<close>

definition outside :: "pyval \<Rightarrow> real \<Rightarrow> real \<Rightarrow> py_error + bool" where
  "outside v lo hi =
     (case v of
        PInt i \<Rightarrow> Inr (real_of_int i < lo \<or> real_of_int i > hi)
      | PFloat r \<Rightarrow> Inr (r < lo \<or> r > hi)
      | _ \<Rightarrow> Inl TypeError)"

text \<open>
  The cap of \<^verbatim>\<open>Pmax\<close> by the melting pressure, when the computed state has a melting
  correlation and its temperature lies in the range of the correlation.
\<close>

definition melting_cap :: "engine \<Rightarrow> fluid \<Rightarrow> real \<Rightarrow> py_error + real" where
  "melting_cap e fluido Pmax =
     (let mel = cl_melting (fl_class fluido) in
      if mel \<noteq> [] then
        and_then (py_getitem (map_of mel) ''Tmin'') (\<lambda>tmin.
          if tmin \<le> fl_T fluido then
            and_then (py_getitem (map_of mel) ''Tmax'') (\<lambda>tmax.
              if fl_T fluido \<le> tmax then
                (let Pmel = eng_Melting_Pressure e (fl_class fluido) (fl_T fluido)
                 in Inr (min Pmax Pmel))
              else Inr Pmax)
          else Inr Pmax)
      else Inr Pmax)"

text \<open>The result \<open>Inr None\<close> is Python's \<^verbatim>\<open>None\<close>, \<open>Inr (Some fluido)\<close> the state object.\<close>

definition calcPoint ::
  "engine \<Rightarrow> preferences \<Rightarrow> fluid \<Rightarrow> config \<Rightarrow> kwargs \<Rightarrow> py_error + fluid option" where
  "calcPoint e pref fluid config kwargs0 =
     (let method = getMethod pref in
      and_then (calcPoint_limits e method fluid config kwargs0) (\<lambda>(kwargs, lims).
      and_then
        (case kwargs ''T'' of
           None \<Rightarrow> Inr False
         | Some v \<Rightarrow> and_then (bound lims) (\<lambda>l. outside v (lim_Tmin l) (lim_Tmax l)))
        (\<lambda>rejectT.
      if rejectT then Inr None
      else and_then
        (case kwargs ''P'' of
           None \<Rightarrow> Inr False
         | Some v \<Rightarrow> and_then (bound lims) (\<lambda>l. outside v (lim_Pmin l - 1) (lim_Pmax l + 1)))
        (\<lambda>rejectP.
      if rejectP then Inr None
      else
        (let fluido = eng_new e (fl_class fluid) kwargs in
         if fl_status fluido \<notin> {1, 3} then Inr None
         else and_then
           (if method = ''MEOS'' then
              and_then (bound lims) (\<lambda>l.
              and_then (melting_cap e fluido (lim_Pmax l)) (\<lambda>Pmax.
                Inr (Some (l\<lparr>lim_Pmax := Pmax\<rparr>))))
            else Inr lims)
           (\<lambda>lims.
         and_then (bound lims) (\<lambda>l.
           if fl_P fluido < lim_Pmin l - 1 \<or> fl_P fluido > lim_Pmax l + 1
              \<or> fl_T fluido < lim_Tmin l \<or> fl_T fluido > lim_Tmax l
           then Inr None
           else Inr (Some fluido))))))))"

section \<open>\<^verbatim>\<open>plugin.calculatePlot\<close>: the melting and the sublimation line\<close>

text \<open>
  \<^verbatim>\<open>numpy.linspace(start, stop, num)\<close>: \<^verbatim>\<open>num\<close> samples with equal steps, both ends
  included.
\<close>

definition linspace :: "real \<Rightarrow> real \<Rightarrow> nat \<Rightarrow> real list" where
  "linspace start stop num =
     (if num = 1 then [start]
      else map (\<lambda>i. start + real i * ((stop - start) / real (num - 1))) [0..<num])"

text \<open>
  The loop over the sampled temperatures: the pressure of the correlation at \<^verbatim>\<open>Ti\<close>, the
  state by \<^verbatim>\<open>calcPoint\<close>, appended to \<^verbatim>\<open>fluidos\<close> when it is not \<^verbatim>\<open>None\<close>.  (The loop
  also moves the progress bar and lets the toolkit process its events.)
\<close>

fun line_loop ::
  "engine \<Rightarrow> preferences \<Rightarrow> fluid \<Rightarrow> config \<Rightarrow> (real \<Rightarrow> real) \<Rightarrow> real list \<Rightarrow> fluid list \<Rightarrow>
   py_error + fluid list" where
  "line_loop e pref fluid config pressure [] fluidos = Inr fluidos"
| "line_loop e pref fluid config pressure (Ti # T) fluidos =
     (let P = pressure Ti in
      and_then (calcPoint e pref fluid config [''T'' \<mapsto> PFloat Ti, ''P'' \<mapsto> PFloat P])
        (\<lambda>fluido. line_loop e pref fluid config pressure T
           (case fluido of None \<Rightarrow> fluidos | Some f \<Rightarrow> fluidos @ [f])))"

text \<open>
  The value stored for property \<^verbatim>\<open>x\<close> of one state: \<^verbatim>\<open>None\<close> when the attribute is
  \<^verbatim>\<open>None\<close>, else its \<^verbatim>\<open>_data\<close>, of the first component for the fugacity properties.
\<close>

definition prop_data :: "string \<Rightarrow> fluid \<Rightarrow> py_error + real option" where
  "prop_data x fluido =
     (case fl_attr fluido x of
        None \<Rightarrow> Inr None
      | Some num \<Rightarrow>
          if x \<in> {''fi'', ''f''} then
            (case num of
               Vector v \<Rightarrow> and_then (py_index v 0) (\<lambda>n. Inr (Some n))
             | Scalar _ \<Rightarrow> Inl TypeError)
          else
            (case num of
               Scalar r \<Rightarrow> Inr (Some r)
             | Vector _ \<Rightarrow> Inl AttributeError))"

fun collect :: "('a \<Rightarrow> py_error + 'b) \<Rightarrow> 'a list \<Rightarrow> py_error + 'b list" where
  "collect f [] = Inr []"
| "collect f (x # xs) =
     and_then (f x) (\<lambda>y. and_then (collect f xs) (\<lambda>ys. Inr (y # ys)))"

type_synonym line_data = "string \<rightharpoonup> real option list"

fun line_table :: "string list \<Rightarrow> fluid list \<Rightarrow> line_data \<Rightarrow> py_error + line_data" where
  "line_table [] fluidos d = Inr d"
| "line_table (x # xs) fluidos d =
     and_then (collect (prop_data x) fluidos)
       (\<lambda>dat_propiedad. line_table xs fluidos (d(x \<mapsto> dat_propiedad)))"

type_synonym plot_data = "string \<rightharpoonup> line_data"

text \<open>
  One of the two lines.  The source writes the same block twice, for \<^verbatim>\<open>_melting\<close> with
  \<^verbatim>\<open>_Melting_Pressure\<close> and for \<^verbatim>\<open>_sublimation\<close> with \<^verbatim>\<open>_Sublimation_Pressure\<close>.
\<close>

definition solid_line ::
  "engine \<Rightarrow> preferences \<Rightarrow> fluid \<Rightarrow> config \<Rightarrow> string list \<Rightarrow> string \<Rightarrow> (string \<times> real) list \<Rightarrow>
   (real \<Rightarrow> real) \<Rightarrow> nat \<Rightarrow> plot_data \<Rightarrow> py_error + plot_data" where
  "solid_line e pref fluid config keys name corr pressure points data =
     (if corr \<noteq> [] then
        and_then (py_getitem (map_of corr) ''Tmin'') (\<lambda>tmin.
        and_then (py_getitem (map_of corr) ''Tmax'') (\<lambda>tmax.
        (let T = linspace tmin tmax points in
         and_then (line_loop e pref fluid config pressure T []) (\<lambda>fluidos.
           if fluidos \<noteq> [] then
             and_then (line_table keys fluidos Map.empty) (\<lambda>tab. Inr (data(name \<mapsto> tab)))
           else Inr data))))
      else Inr data)"

text \<open>
  The first part of \<^verbatim>\<open>calculatePlot\<close>, up to the saturation line.  \<^verbatim>\<open>Preferences\<close> is the
  preference object in memory (\<^verbatim>\<open>config.Preferences\<close>), \<^verbatim>\<open>pref\<close> the preference file that
  \<^verbatim>\<open>getMethod\<close> reads, \<^verbatim>\<open>keys\<close> the list \<^verbatim>\<open>ThermoAdvanced.propertiesKey()\<close>.  The rest of
  the function adds the saturation lines and the isolines under other keys.
\<close>

definition calculatePlot_lines ::
  "engine \<Rightarrow> preferences \<Rightarrow> preferences \<Rightarrow> fluid \<Rightarrow> config \<Rightarrow> string list \<Rightarrow>
   py_error + plot_data" where
  "calculatePlot_lines e pref Preferences fluid config keys =
     (let data = Map.empty;
          points = get_points Preferences;
          method = getMethod pref
      in if method = ''MEOS'' then
           and_then
             (solid_line e pref fluid config keys ''melting'' (cl_melting (fl_class fluid))
                (eng_Melting_Pressure e (fl_class fluid)) points data)
             (\<lambda>data.
                solid_line e pref fluid config keys ''sublimation''
                  (cl_sublimation (fl_class fluid))
                  (eng_Sublimation_Pressure e (fl_class fluid)) points data)
         else Inr data)"

section \<open>A sample engine\<close>

text \<open>
  A small engine and fluid on which the functions above can be run: the state of a new
  instance echoes the temperature and pressure it is given, every state is computed with
  status 1, and the melting pressure is \<open>1000 * T\<close>.
\<close>

definition ex_class :: fluid_class where
  "ex_class = \<lparr>cl_is_meos = True, cl_name = ''water'',
     cl_eq = EqTuple [[(''Tmin'', 250), (''Tmax'', 500), (''Pmax'', 1000)]],
     cl_melting = [(''Tmin'', 200), (''Tmax'', 400)], cl_sublimation = []\<rparr>"

definition ex_float :: "kwargs \<Rightarrow> string \<Rightarrow> real" where
  "ex_float kw k = (case kw k of Some (PFloat r) \<Rightarrow> r | Some (PInt i) \<Rightarrow> real_of_int i | _ \<Rightarrow> 0)"

definition ex_kwargs :: kwargs where
  "ex_kwargs =
     [''T'' \<mapsto> PFloat 0, ''P'' \<mapsto> PFloat 0, ''x'' \<mapsto> PNone, ''rho'' \<mapsto> PFloat 0,
      ''v'' \<mapsto> PFloat 0, ''h'' \<mapsto> PNone, ''s'' \<mapsto> PNone, ''u'' \<mapsto> PNone]"

definition ex_engine :: engine where
  "ex_engine = \<lparr>
     eng_new = (\<lambda>cls kw. \<lparr>fl_class = cls, fl_status = 1, fl_msg = '''',
        fl_T = ex_float kw ''T'', fl_P = ex_float kw ''P'',
        fl_attr = (\<lambda>x. if x = ''T'' then Some (Scalar (ex_float kw ''T'')) else None),
        fl_kwargs = ex_kwargs ++ kw\<rparr>),
     eng_init = (\<lambda>cls. \<lparr>fl_class = cls, fl_status = 0, fl_msg = ''undefined'',
        fl_T = 0, fl_P = 0, fl_attr = (\<lambda>x. None), fl_kwargs = ex_kwargs\<rparr>),
     eng_call = (\<lambda>f kw. f\<lparr>fl_status := 1, fl_msg := '''', fl_T := ex_float kw ''T'',
        fl_P := 600,
        fl_attr := (\<lambda>x. if x = ''T'' then Some (Scalar (ex_float kw ''T'')) else None),
        fl_kwargs := fl_kwargs f ++ kw\<rparr>),
     eng_Melting_Pressure = (\<lambda>cls T. 1000 * T),
     eng_Sublimation_Pressure = (\<lambda>cls T. T)\<rparr>"

definition ex_fluid :: fluid where
  "ex_fluid = eng_init ex_engine ex_class"

definition ex_config :: project_config where
  "ex_config = \<lparr>conf_fluid = 0, conf_eq = 0, conf_visco = 0, conf_thermal = 0,
     conf_properties = [True, False, True], conf_propertiesOrder = [2, 0, - 2]\<rparr>"

definition ex_pref :: preferences where
  "ex_pref = \<lparr>coolprop = False, refprop = True, definition_opt = 0\<rparr>"


section \<open>\<^verbatim>\<open>plot2D3D\<close>: drawing the melting and the sublimation line\<close>

text \<open>
  A call \<^verbatim>\<open>grafico.plot.ax.plot(xs, ys, label=label, **format)\<close> or, in a 3D plot,
  \<^verbatim>\<open>ax.plot(xs, ys, zs, label=label, **format)\<close>.  The line format is the same in every
  call of this block and is left out.
\<close>

record 'v plot_call =
  pc_x :: "'v list"
  pc_y :: "'v list"
  pc_z :: "'v list option"
  pc_label :: string

text \<open>The truth value of the argument \<^verbatim>\<open>z\<close>, which is \<^verbatim>\<open>None\<close> or a property key.\<close>

definition z_given :: "string option \<Rightarrow> bool" where
  "z_given z = (case z of None \<Rightarrow> False | Some k \<Rightarrow> k \<noteq> [])"

text \<open>\<^verbatim>\<open>data[line][key]\<close>, and with \<^verbatim>\<open>z\<close> as the key.\<close>

definition data_column :: "plot_data \<Rightarrow> string \<Rightarrow> string \<Rightarrow> py_error + real option list" where
  "data_column data line key = and_then (py_getitem data line) (\<lambda>d. py_getitem d key)"

definition data_column_z ::
  "plot_data \<Rightarrow> string \<Rightarrow> string option \<Rightarrow> py_error + real option list" where
  "data_column_z data line z =
     and_then (py_getitem data line)
       (\<lambda>d. case z of None \<Rightarrow> Inl KeyError | Some k \<Rightarrow> py_getitem d k)"

text \<open>
  The local variables \<^verbatim>\<open>xmel\<close> and \<^verbatim>\<open>ymel\<close> are assigned in the melting block only;
  the sublimation block reads them when the plot is 3D.
\<close>

record 'v plot_locals =
  loc_xmel :: "'v list option"
  loc_ymel :: "'v list option"

definition local_var :: "'a option \<Rightarrow> py_error + 'a" where
  "local_var v = (case v of None \<Rightarrow> Inl UnboundLocalError | Some x \<Rightarrow> Inr x)"

definition plot2D3D_melting ::
  "(real option \<Rightarrow> 'v) \<Rightarrow> (real option \<Rightarrow> 'v) \<Rightarrow> (real option \<Rightarrow> 'v) \<Rightarrow> plot_data \<Rightarrow>
   string \<Rightarrow> string \<Rightarrow> string option \<Rightarrow> 'v plot_call list \<Rightarrow>
   py_error + ('v plot_call list \<times> 'v plot_locals)" where
  "plot2D3D_melting functionx functiony functionz data x y z calls =
     (if data ''melting'' \<noteq> None then
        (let label = ''Melting Line'' in
         and_then (data_column data ''melting'' x) (\<lambda>cx.
         and_then (data_column data ''melting'' y) (\<lambda>cy.
         (let xmel = map functionx cx; ymel = map functiony cy;
              locals = \<lparr>loc_xmel = Some xmel, loc_ymel = Some ymel\<rparr>
          in if z_given z then
               and_then (data_column_z data ''melting'' z) (\<lambda>cz.
               (let zmel = map functionz cz in
                Inr (calls @ [\<lparr>pc_x = xmel, pc_y = ymel, pc_z = Some zmel, pc_label = label\<rparr>],
                     locals)))
             else
               Inr (calls @ [\<lparr>pc_x = xmel, pc_y = ymel, pc_z = None, pc_label = label\<rparr>],
                    locals)))))
      else Inr (calls, \<lparr>loc_xmel = None, loc_ymel = None\<rparr>))"

definition plot2D3D_sublimation ::
  "(real option \<Rightarrow> 'v) \<Rightarrow> (real option \<Rightarrow> 'v) \<Rightarrow> (real option \<Rightarrow> 'v) \<Rightarrow> plot_data \<Rightarrow>
   string \<Rightarrow> string \<Rightarrow> string option \<Rightarrow> 'v plot_locals \<Rightarrow> 'v plot_call list \<Rightarrow>
   py_error + 'v plot_call list" where
  "plot2D3D_sublimation functionx functiony functionz data x y z locals calls =
     (if data ''sublimation'' \<noteq> None then
        and_then (data_column data ''sublimation'' x) (\<lambda>cx.
        and_then (data_column data ''sublimation'' y) (\<lambda>cy.
        (let xsub = map functionx cx; ysub = map functiony cy;
             label = ''Sublimation Line''
         in if z_given z then
              and_then (data_column_z data ''melting'' z) (\<lambda>cz.
              (let zmel = map functionz cz in
               and_then (local_var (loc_xmel locals)) (\<lambda>xmel.
               and_then (local_var (loc_ymel locals)) (\<lambda>ymel.
                 Inr (calls @
                   [\<lparr>pc_x = xmel, pc_y = ymel, pc_z = Some zmel, pc_label = label\<rparr>])))))
            else
              Inr (calls @ [\<lparr>pc_x = xsub, pc_y = ysub, pc_z = None, pc_label = label\<rparr>]))))
      else Inr calls)"

text \<open>
  The block "Plot melting and sublimation lines" of \<^verbatim>\<open>plot2D3D\<close>; \<open>calls\<close> are the
  plot calls made before it (the saturation lines).
\<close>

definition plot2D3D_lines ::
  "(real option \<Rightarrow> 'v) \<Rightarrow> (real option \<Rightarrow> 'v) \<Rightarrow> (real option \<Rightarrow> 'v) \<Rightarrow> plot_data \<Rightarrow>
   string \<Rightarrow> string \<Rightarrow> string option \<Rightarrow> 'v plot_call list \<Rightarrow> py_error + 'v plot_call list" where
  "plot2D3D_lines functionx functiony functionz data x y z calls =
     and_then (plot2D3D_melting functionx functiony functionz data x y z calls)
       (\<lambda>(calls, locals).
          plot2D3D_sublimation functionx functiony functionz data x y z locals calls)"

text \<open>Data for a plot with both lines, of one point each.\<close>

definition ex_plot_data :: plot_data where
  "ex_plot_data =
     [''melting'' \<mapsto> [''T'' \<mapsto> [Some 1], ''P'' \<mapsto> [Some 2], ''s'' \<mapsto> [Some 3]],
      ''sublimation'' \<mapsto> [''T'' \<mapsto> [Some 10], ''P'' \<mapsto> [Some 20], ''s'' \<mapsto> [Some 30]]]"

section \<open>The dialog \<^verbatim>\<open>AddPoint\<close>\<close>

text \<open>
  The widgets of the dialog, as far as \<^verbatim>\<open>update\<close>, \<^verbatim>\<open>fill\<close> and \<^verbatim>\<open>reset\<close> touch them.
  The \<^verbatim>\<open>Status\<close> widget is modelled by the list of the calls \<^verbatim>\<open>setState(state, msg)\<close> it
  received, the last one being what it shows; a call without message has \<open>None\<close>.
  An input widget holds a value (or is clear) and a highlight flag.  The radio button
  \<^verbatim>\<open>checkMelting\<close> exists only when the constructor created it.
\<close>

record input_widget =
  in_value :: "attr option option"
  in_resaltado :: bool

record add_point =
  ap_fluid :: fluid
  ap_Inputs :: "input_widget list"
  ap_status :: "(int \<times> string option) list"
  ap_checkMelting :: "bool option"
  ap_To :: "real option"
  ap_rhoo :: "real option"

definition AddPoint_keys :: "string list" where
  "AddPoint_keys = [''T'', ''P'', ''x'', ''rho'', ''v'', ''h'', ''s'', ''u'']"

definition setState :: "int \<Rightarrow> string option \<Rightarrow> add_point \<Rightarrow> add_point" where
  "setState state msg dlg = dlg\<lparr>ap_status := ap_status dlg @ [(state, msg)]\<rparr>"

text \<open>
  The constructor: one input per entry of \<^verbatim>\<open>meos.inputData\<close> (their number is
  \<open>n_inputs\<close>), the status widget built from the fluid, and the radio button for an
  \<^verbatim>\<open>MEoS\<close> fluid with a melting correlation.
\<close>

definition AddPoint_init :: "fluid \<Rightarrow> bool \<Rightarrow> nat \<Rightarrow> add_point" where
  "AddPoint_init fluid melting n_inputs =
     \<lparr>ap_fluid = fluid,
      ap_Inputs = replicate n_inputs \<lparr>in_value = None, in_resaltado = False\<rparr>,
      ap_status = [(fl_status fluid, Some (fl_msg fluid))],
      ap_checkMelting =
        (if cl_is_meos (fl_class fluid) \<and> cl_melting (fl_class fluid) \<noteq> []
         then Some melting else None),
      ap_To = None,
      ap_rhoo = None\<rparr>"

text \<open>The truth value of a keyword value, as \<^verbatim>\<open>if fluid.kwargs[key]:\<close> takes it.\<close>

definition truthy :: "pyval \<Rightarrow> bool" where
  "truthy v =
     (case v of PNone \<Rightarrow> False | PInt i \<Rightarrow> i \<noteq> 0 | PFloat r \<Rightarrow> r \<noteq> 0 | PStr s \<Rightarrow> s \<noteq> [])"

text \<open>The loop of \<^verbatim>\<open>fill\<close> over \<^verbatim>\<open>zip(self.keys, self.Inputs)\<close>.\<close>

fun fill_inputs :: "fluid \<Rightarrow> string list \<Rightarrow> input_widget list \<Rightarrow> py_error + input_widget list" where
  "fill_inputs fluid (key # keys) (inp # inputs) =
     and_then (py_getitem (fl_kwargs fluid) key) (\<lambda>given.
     and_then (fill_inputs fluid keys inputs) (\<lambda>rest.
       Inr (\<lparr>in_value = Some (fl_attr fluid key), in_resaltado = truthy given\<rparr> # rest)))"
| "fill_inputs fluid [] inputs = Inr inputs"
| "fill_inputs fluid keys [] = Inr []"

definition fill :: "fluid \<Rightarrow> add_point \<Rightarrow> py_error + add_point" where
  "fill fluid dlg =
     and_then (fill_inputs fluid AddPoint_keys (ap_Inputs dlg))
       (\<lambda>inputs. Inr (dlg\<lparr>ap_Inputs := inputs\<rparr>))"

text \<open>
  \<^verbatim>\<open>AddPoint.update(key, value)\<close>, the slot of every input of the dialog.  The fluid
  object is recomputed in place by \<^verbatim>\<open>self.fluid(**kw)\<close>.  \<open>AddPoint_melting\<close> is the
  condition under which the melting pressure is added to the input.
\<close>

definition AddPoint_melting :: "add_point \<Rightarrow> string \<Rightarrow> py_error + bool" where
  "AddPoint_melting dlg key =
     (let fluid = ap_fluid dlg in
      if cl_is_meos (fl_class fluid) \<and> cl_melting (fl_class fluid) \<noteq> [] then
        (case ap_checkMelting dlg of
           None \<Rightarrow> Inl AttributeError
         | Some checked \<Rightarrow> Inr (checked \<and> key = ''T''))
      else Inr False)"

definition AddPoint_update ::
  "engine \<Rightarrow> string \<Rightarrow> real \<Rightarrow> add_point \<Rightarrow> py_error + add_point" where
  "AddPoint_update e key value dlg0 =
     (let dlg = setState 4 None dlg0;
          fluid = ap_fluid dlg
      in and_then (AddPoint_melting dlg key) (\<lambda>melting.
           (let fluid =
                  (if melting then
                     (let P = eng_Melting_Pressure e (fl_class fluid) value
                      in eng_call e fluid [key \<mapsto> PFloat value, ''P'' \<mapsto> PFloat P])
                   else eng_call e fluid [key \<mapsto> PFloat value]);
                dlg = dlg\<lparr>ap_fluid := fluid\<rparr>
            in and_then
                 (if fl_status (ap_fluid dlg) \<in> {1, 3} then fill (ap_fluid dlg) dlg
                  else Inr dlg)
                 (\<lambda>dlg. Inr (setState (fl_status (ap_fluid dlg))
                               (Some (fl_msg (ap_fluid dlg))) dlg)))))"

definition AddPoint_reset :: "engine \<Rightarrow> add_point \<Rightarrow> add_point" where
  "AddPoint_reset e dlg0 =
     (let dlg = dlg0\<lparr>ap_fluid := eng_init e (fl_class (ap_fluid dlg0))\<rparr>;
          dlg = setState (fl_status (ap_fluid dlg)) (Some (fl_msg (ap_fluid dlg))) dlg;
          dlg = dlg\<lparr>ap_rhoo := None\<rparr>;
          dlg = dlg\<lparr>ap_To := None\<rparr>
      in dlg\<lparr>ap_Inputs :=
           map (\<lambda>inp. \<lparr>in_value = None, in_resaltado = False\<rparr>) (ap_Inputs dlg)\<rparr>)"

section \<open>\<^verbatim>\<open>PlotMEoS\<close>: the cached data of a plot\<close>

text \<open>
  \<^verbatim>\<open>plugin.plot\<close> names the cache file of a plot after the method and the fluid:
  \<^verbatim>\<open>"%s-%s.pkl" % (method, fluid.name)\<close>.
\<close>

definition plot_filename :: "preferences \<Rightarrow> fluid \<Rightarrow> string" where
  "plot_filename pref fluid =
     (let method = getMethod pref
      in method @ ''-'' @ cl_name (fl_class fluid) @ ''.pkl'')"

text \<open>
  The file system holds the contents of its regular files by path; \<open>fs_writable\<close> tells
  whether \<^verbatim>\<open>open(path, 'wb')\<close> succeeds.  The environment is \<^verbatim>\<open>config.conf_dir\<close>, the
  variable \<^verbatim>\<open>os.environ["pychemqt"]\<close> (which may be unset) and \<^verbatim>\<open>os.sep\<close>.  Pickle is a
  parameter: \<open>pk_dump\<close> writes a dictionary as a blob, \<open>pk_load\<close> reads one, and
  \<open>pk_load_gz\<close> reads a gzip-compressed one.
\<close>

record 'b filesystem =
  fs_files :: "string \<rightharpoonup> 'b"
  fs_writable :: "string \<Rightarrow> bool"

record environment =
  env_conf_dir :: string
  env_pychemqt :: "string option"
  env_sep :: string

record ('d, 'b) pickle =
  pk_dump :: "'d \<Rightarrow> 'b"
  pk_load :: "'b \<Rightarrow> py_error + 'd"
  pk_load_gz :: "'b \<Rightarrow> py_error + 'd"

definition filenameSoft :: "environment \<Rightarrow> string \<Rightarrow> string" where
  "filenameSoft env filename = env_conf_dir env @ filename"

definition filenameHard :: "string \<Rightarrow> environment \<Rightarrow> string \<Rightarrow> string" where
  "filenameHard home env filename =
     home @ ''dat'' @ env_sep env @ ''mEoS'' @ env_sep env @ filename @ ''.gz''"

definition PlotMEoS_saveData ::
  "environment \<Rightarrow> ('d, 'b) pickle \<Rightarrow> string \<Rightarrow> 'd \<Rightarrow> 'b filesystem \<Rightarrow> py_error + 'b filesystem" where
  "PlotMEoS_saveData env pk filename data fs =
     (let path = env_conf_dir env @ filename in
      if fs_writable fs path
      then Inr (fs\<lparr>fs_files := (fs_files fs)(path \<mapsto> pk_dump pk data)\<rparr>)
      else Inl IOError)"

text \<open>The result is the value returned (\<open>None\<close> when there is no file) and the file system.\<close>

definition PlotMEoS_getData ::
  "environment \<Rightarrow> ('d, 'b) pickle \<Rightarrow> string \<Rightarrow> 'b filesystem \<Rightarrow>
   py_error + ('d option \<times> 'b filesystem)" where
  "PlotMEoS_getData env pk filename fs =
     (case env_pychemqt env of
        None \<Rightarrow> Inl KeyError
      | Some home \<Rightarrow>
          (case fs_files fs (filenameSoft env filename) of
             Some blob \<Rightarrow> and_then (pk_load pk blob) (\<lambda>data. Inr (Some data, fs))
           | None \<Rightarrow>
               (case fs_files fs (filenameHard home env filename) of
                  Some blob \<Rightarrow>
                    and_then (pk_load_gz pk blob) (\<lambda>data.
                    and_then (PlotMEoS_saveData env pk filename data fs) (\<lambda>fs.
                      Inr (Some data, fs)))
                | None \<Rightarrow> Inr (None, fs))))"

text \<open>A pickle on lists of numbers, for running the two functions.\<close>

definition ex_pickle :: "(int list, int list) pickle" where
  "ex_pickle = \<lparr>pk_dump = rev, pk_load = (\<lambda>b. Inr (rev b)), pk_load_gz = (\<lambda>b. Inr (tl b))\<rparr>"

definition ex_env :: environment where
  "ex_env = \<lparr>env_conf_dir = ''/home/user/.pychemqt/'', env_pychemqt = Some ''/opt/pychemqt/'',
             env_sep = ''/''\<rparr>"

definition ex_fs :: "int list filesystem" where
  "ex_fs = \<lparr>fs_files = [''/opt/pychemqt/dat/mEoS/MEOS-water.pkl.gz'' \<mapsto> [0, 3, 2, 1]],
            fs_writable = (\<lambda>path. True)\<rparr>"

section \<open>\<^verbatim>\<open>TablaMEoS\<close>: saving a table to the project file and loading it\<close>

text \<open>
  A cell of the data of a table is a string, a number or \<^verbatim>\<open>None\<close>.  The number format
  of a column is a dictionary that this module only passes on; it is a type parameter,
  and so is the type of the unit classes.
\<close>

datatype cell = CStr string | CNum real | CNone

text \<open>
  Modelled from the spec: the base class \<^verbatim>\<open>Tabla\<close> (module \<^verbatim>\<open>UI.widgets\<close>, over Qt's
  \<^verbatim>\<open>QTableWidget\<close>) is not part of the source.  Of the tables that the spec says are
  persisted and reloaded, it is taken as the widget that keeps what its constructor and
  setters are given: the number of columns and rows, the window title, the text of the
  header item of each column (\<open>None\<close> for a column without header item), the flag
  \<^verbatim>\<open>readOnly\<close> (false when not given) and the list \<^verbatim>\<open>columnReadOnly\<close> (one copy of
  \<^verbatim>\<open>readOnly\<close> per column when not given).  The items of the cells and their flags are
  left out.
\<close>

record Tabla =
  tb_columnCount :: nat
  tb_rowCount :: nat
  tb_windowTitle :: string
  tb_hHeader :: "nat \<Rightarrow> string option"
  tb_readOnly :: bool
  tb_columnReadOnly :: "bool list"

definition Tabla_init ::
  "nat \<Rightarrow> nat \<Rightarrow> bool \<Rightarrow> bool list option \<Rightarrow> string list \<Rightarrow> Tabla" where
  "Tabla_init columnas filas readOnly columnReadOnly horizontalHeader =
     \<lparr>tb_columnCount = columnas,
      tb_rowCount = filas,
      tb_windowTitle = [],
      tb_hHeader = (\<lambda>c. if c < columnas \<and> c < length horizontalHeader
                          then Some (horizontalHeader ! c) else None),
      tb_readOnly = readOnly,
      tb_columnReadOnly =
        (case columnReadOnly of None \<Rightarrow> replicate columnas readOnly | Some l \<Rightarrow> l)\<rparr>"

text \<open>
  \<^verbatim>\<open>TablaMEoS\<close> adds its own attributes.  \<^verbatim>\<open>keys\<close> is set only when the constructor is
  given it, \<^verbatim>\<open>Point\<close> only when the creator of the table assigns it; \<open>None\<close> is the
  attribute that is not there.
\<close>

record ('u, 'f) TablaMEoS = Tabla +
  tb_units :: "'u list"
  tb_orderUnit :: "int list"
  tb_format :: "'f list"
  tb_keys :: "string list option"
  tb_Point :: "thermo_instance option"
  tb_data :: "cell list list"

text \<open>
  The constructor as \<^verbatim>\<open>readFromJSON\<close> calls it, with \<^verbatim>\<open>orderUnit\<close> and \<^verbatim>\<open>format\<close> given.
\<close>

definition TablaMEoS_init ::
  "nat \<Rightarrow> nat \<Rightarrow> bool \<Rightarrow> bool list option \<Rightarrow> string list \<Rightarrow> 'u list \<Rightarrow> int list \<Rightarrow> 'f list \<Rightarrow>
   string list option \<Rightarrow> ('u, 'f) TablaMEoS" where
  "TablaMEoS_init columnas filas readOnly columnReadOnly horizontalHeader units orderUnit
       format keys =
     (let base = Tabla_init columnas filas readOnly columnReadOnly horizontalHeader
      in \<lparr>tb_columnCount = tb_columnCount base,
          tb_rowCount = tb_rowCount base,
          tb_windowTitle = tb_windowTitle base,
          tb_hHeader = tb_hHeader base,
          tb_readOnly = tb_readOnly base,
          tb_columnReadOnly = tb_columnReadOnly base,
          tb_units = units,
          tb_orderUnit = orderUnit,
          tb_format = format,
          tb_keys = keys,
          tb_Point = None,
          tb_data = []\<rparr>)"

text \<open>
  Writing the cells of a row: a cell that is not a string is formatted with the format
  of its column, and a column beyond the format list raises \<^verbatim>\<open>IndexError\<close>.
\<close>

definition row_ok :: "'f list \<Rightarrow> cell list \<Rightarrow> bool" where
  "row_ok format row =
     list_all (\<lambda>(column, c). (case c of CStr _ \<Rightarrow> True | _ \<Rightarrow> column < length format))
       (enumerate 0 row)"

definition setRow ::
  "nat \<Rightarrow> cell list \<Rightarrow> ('u, 'f) TablaMEoS \<Rightarrow> py_error + ('u, 'f) TablaMEoS" where
  "setRow row cells t =
     (let t = t\<lparr>tb_data := take row (tb_data t) @ [cells] @ drop row (tb_data t)\<rparr>
      in if row_ok (tb_format t) cells then Inr t else Inl IndexError)"

fun setData_rows ::
  "nat \<Rightarrow> cell list list \<Rightarrow> ('u, 'f) TablaMEoS \<Rightarrow> py_error + ('u, 'f) TablaMEoS" where
  "setData_rows i [] t = Inr t"
| "setData_rows i (row # rows) t = and_then (setRow i row t) (setData_rows (Suc i) rows)"

definition setStr :: "('u, 'f) TablaMEoS \<Rightarrow> py_error + ('u, 'f) TablaMEoS" where
  "setStr t =
     (if list_all (row_ok (tb_format t)) (tb_data t)
      then Inr (t\<lparr>tb_rowCount := max (tb_rowCount t) (length (tb_data t))\<rparr>)
      else Inl IndexError)"

definition setData ::
  "cell list list \<Rightarrow> ('u, 'f) TablaMEoS \<Rightarrow> py_error + ('u, 'f) TablaMEoS" where
  "setData data t =
     (if tb_readOnly t then setStr (t\<lparr>tb_data := data\<rparr>)
      else setData_rows 0 data t)"

text \<open>The dictionary of a table in the project file; an optional key may be absent.\<close>

record 'f json_tabla =
  js_column :: nat
  js_title :: string
  js_htitle :: "string list"
  js_unit :: "int list"
  js_readOnly :: bool
  js_method :: "string option"
  js_fluid :: "int option"
  js_external_dependences :: "string option"
  js_keys :: "string list option"
  js_columnReadOnly :: "bool list option"
  js_orderUnit :: "int list"
  js_format :: "'f list"
  js_data :: "cell list list"

text \<open>\<^verbatim>\<open>xs.index(x)\<close>: the first position of \<^verbatim>\<open>x\<close>, \<^verbatim>\<open>ValueError\<close> when there is none.\<close>

fun list_index :: "'a list \<Rightarrow> 'a \<Rightarrow> py_error + nat" where
  "list_index [] x = Inl ValueError"
| "list_index (y # ys) x =
     (if y = x then Inr 0 else and_then (list_index ys x) (\<lambda>i. Inr (Suc i)))"

definition attribute :: "'a option \<Rightarrow> py_error + 'a" where
  "attribute a = (case a of None \<Rightarrow> Inl AttributeError | Some v \<Rightarrow> Inr v)"

text \<open>
  The method name, the fluid identifier and the external dependence written for the
  fluid of an editable table.
\<close>

definition write_Point ::
  "meos_class list \<Rightarrow> thermo_instance \<Rightarrow> py_error + (string \<times> int \<times> string)" where
  "write_Point mEoS_all Point =
     (case Point of
        MEoS c \<Rightarrow> and_then (list_index mEoS_all c) (\<lambda>i. Inr (''meos'', int i, []))
      | CoolProp ids \<Rightarrow> and_then (py_index ids 0) (\<lambda>i. Inr (''coolprop'', i, ''CoolProp''))
      | RefProp ids \<Rightarrow> and_then (py_index ids 0) (\<lambda>i. Inr (''refprop'', i, ''refprop'')))"

text \<open>
  \<^verbatim>\<open>writeToJSON\<close> fills the dictionary; it also appends \<^verbatim>\<open>Dimensionless\<close> to the shared
  list \<^verbatim>\<open>unidades._all\<close>, so the list is returned with the dictionary.
\<close>

definition TablaMEoS_writeToJSON ::
  "'u list \<Rightarrow> 'u \<Rightarrow> meos_class list \<Rightarrow> ('u, 'f) TablaMEoS \<Rightarrow>
   py_error + ('u list \<times> 'f json_tabla)" where
  "TablaMEoS_writeToJSON unidades_all Dimensionless mEoS_all t =
     (let column = tb_columnCount t in
      and_then (collect (\<lambda>c. attribute (tb_hHeader t c)) [0..<column]) (\<lambda>htitle.
      (let all = unidades_all @ [Dimensionless] in
       and_then (collect (list_index all) (tb_units t)) (\<lambda>unit.
       and_then
         (if \<not> tb_readOnly t then
            and_then (attribute (tb_Point t)) (\<lambda>Point.
            and_then (write_Point mEoS_all Point) (\<lambda>(method, fluid, dependences).
            and_then (attribute (tb_keys t)) (\<lambda>keys.
              Inr (Some method, Some fluid, Some dependences, Some keys,
                   Some (tb_columnReadOnly t)))))
          else Inr (None, None, None, None, None))
         (\<lambda>(method, fluid, dependences, keys, columnReadOnly).
            Inr (all,
              \<lparr>js_column = column,
               js_title = tb_windowTitle t,
               js_htitle = htitle,
               js_unit = map int unit,
               js_readOnly = tb_readOnly t,
               js_method = method,
               js_fluid = fluid,
               js_external_dependences = dependences,
               js_keys = keys,
               js_columnReadOnly = columnReadOnly,
               js_orderUnit = tb_orderUnit t,
               js_format = tb_format t,
               js_data = tb_data t\<rparr>))))))"

definition read_Point :: "meos_class list \<Rightarrow> 'f json_tabla \<Rightarrow> py_error + thermo_instance" where
  "read_Point mEoS_all data =
     and_then (py_getitem js_method data) (\<lambda>method.
       if method = ''meos'' then
         and_then (py_getitem js_fluid data) (\<lambda>f.
         and_then (py_index mEoS_all f) (\<lambda>c. Inr (MEoS c)))
       else if method = ''coolprop'' then
         and_then (py_getitem js_fluid data) (\<lambda>f. Inr (CoolProp [f]))
       else if method = ''refprop'' then
         and_then (py_getitem js_fluid data) (\<lambda>f. Inr (RefProp [f]))
       else Inl UnboundLocalError)"

definition TablaMEoS_readFromJSON ::
  "'u list \<Rightarrow> 'u \<Rightarrow> meos_class list \<Rightarrow> 'f json_tabla \<Rightarrow>
   py_error + ('u list \<times> ('u, 'f) TablaMEoS)" where
  "TablaMEoS_readFromJSON unidades_all Dimensionless mEoS_all data =
     (let all = unidades_all @ [Dimensionless] in
      and_then (collect (py_index all) (js_unit data)) (\<lambda>units.
      and_then
        (if js_readOnly data then Inr (True, 0, None, None)
         else
           and_then (py_getitem js_keys data) (\<lambda>keys.
           and_then (py_getitem js_columnReadOnly data) (\<lambda>columnReadOnly.
             Inr (False, length (js_data data) + 1, Some keys, Some columnReadOnly))))
        (\<lambda>(readOnly, filas, keys, columnReadOnly).
           (let tabla = TablaMEoS_init (js_column data) filas readOnly columnReadOnly
                          (js_htitle data) units (js_orderUnit data) (js_format data) keys;
                tabla = tabla\<lparr>tb_windowTitle := js_title data\<rparr>
            in and_then (setData (js_data data) tabla) (\<lambda>tabla.
               if \<not> js_readOnly data then
                 and_then (read_Point mEoS_all data) (\<lambda>fluid.
                   Inr (all, tabla\<lparr>tb_Point := Some fluid\<rparr>))
               else Inr (all, tabla))))))"

text \<open>An editable table of two columns and one row, for the fluid of class water.\<close>

definition ex_mEoS_all :: "meos_class list" where
  "ex_mEoS_all = [\<lparr>cls_id = 1, cls_name = ''hydrogen''\<rparr>, \<lparr>cls_id = 62, cls_name = ''water''\<rparr>]"

definition ex_unidades_all :: "string list" where
  "ex_unidades_all = [''Temperature'', ''Pressure'']"

definition ex_tabla :: "(string, int) TablaMEoS" where
  "ex_tabla =
     \<lparr>tb_columnCount = 2,
      tb_rowCount = 2,
      tb_windowTitle = ''Table: water'',
      tb_hHeader = (\<lambda>c. if c = 0 then Some ''T, K'' else if c = 1 then Some ''x, [-]'' else None),
      tb_readOnly = False,
      tb_columnReadOnly = [False, True],
      tb_units = [''Temperature'', ''Dimensionless''],
      tb_orderUnit = [0, 0],
      tb_format = [6, 4],
      tb_keys = Some [''T'', ''x''],
      tb_Point = Some (MEoS \<lparr>cls_id = 62, cls_name = ''water''\<rparr>),
      tb_data = [[CNum 300, CNum 1]]\<rparr>"

text \<open>
  The editable table as \<^verbatim>\<open>createTabla\<close> builds it when it is given no fluid (as
  \<^verbatim>\<open>addTable\<close> does for an empty list): the constructor with keys and
  \<^verbatim>\<open>columnReadOnly\<close>, then the window title.  Nothing assigns \<^verbatim>\<open>Point\<close>.  Here the
  properties shown are the temperature and the pressure, both input columns; a header
  title is the name of the property, a line break and the unit.
\<close>

definition ex_created_tabla :: "(string, int) TablaMEoS" where
  "ex_created_tabla =
     (TablaMEoS_init 2 1 False (Some [False, False])
        [''Temperature'' @ [CHR 0x0A] @ ''K'', ''Pressure'' @ [CHR 0x0A] @ ''Pa'']
        [''Temperature'', ''Pressure''] [0, 0] [6, 6] (Some [''T'', ''P'']))
     \<lparr>tb_windowTitle := ''Table: water''\<rparr>"

section \<open>Theorems\<close>

subsection \<open>Auxiliary facts\<close>

lemma and_then_Inr: "and_then m f = Inr y \<longleftrightarrow> (\<exists>v. m = Inr v \<and> f v = Inr y)"
  by (cases m) (simp_all add: and_then_def)

lemma py_getitem_Inr: "py_getitem d k = Inr v \<longleftrightarrow> d k = Some v"
  by (simp add: py_getitem_def split: option.splits)

lemma length_linspace: "length (linspace a b n) = n"
  by (simp add: linspace_def)

lemma nth_linspace:
  "i < n \<Longrightarrow> linspace a b n ! i = a + real i * ((b - a) / real (n - 1))"
  by (auto simp: linspace_def)

lemma line_loop_spec:
  "line_loop e pref fluid config pr T acc = Inr fluidos \<Longrightarrow>
   \<exists>results.
     map (\<lambda>Ti. calcPoint e pref fluid config [''T'' \<mapsto> PFloat Ti, ''P'' \<mapsto> PFloat (pr Ti)]) T
       = map Inr results \<and>
     fluidos = acc @ List.map_filter id results"
proof (induction T arbitrary: acc)
  case Nil
  then show ?case by simp
next
  case (Cons Ti T)
  from Cons.prems obtain r where
    r: "calcPoint e pref fluid config [''T'' \<mapsto> PFloat Ti, ''P'' \<mapsto> PFloat (pr Ti)] = Inr r"
    and rest: "line_loop e pref fluid config pr T
                 (case r of None \<Rightarrow> acc | Some f \<Rightarrow> acc @ [f]) = Inr fluidos"
    by (auto simp: and_then_Inr Let_def)
  from Cons.IH [OF rest] obtain results where
    m: "map (\<lambda>Ti. calcPoint e pref fluid config [''T'' \<mapsto> PFloat Ti, ''P'' \<mapsto> PFloat (pr Ti)]) T
          = map Inr results"
    and f: "fluidos = (case r of None \<Rightarrow> acc | Some f \<Rightarrow> acc @ [f]) @ List.map_filter id results"
    by blast
  have "map (\<lambda>Ti. calcPoint e pref fluid config [''T'' \<mapsto> PFloat Ti, ''P'' \<mapsto> PFloat (pr Ti)]) (Ti # T)
          = map Inr (r # results)"
    using r m by simp
  moreover have "fluidos = acc @ List.map_filter id (r # results)"
    using f by (cases r) simp_all
  ultimately show ?case by blast
qed

lemma collect_spec: "collect f xs = Inr ys \<Longrightarrow> map f xs = map Inr ys"
  by (induction xs arbitrary: ys) (auto simp: and_then_Inr)

lemma line_table_spec:
  "line_table keys fl d = Inr tab \<Longrightarrow>
   (\<forall>x\<in>set keys. \<exists>col. tab x = Some col \<and> map (prop_data x) fl = map Inr col) \<and>
   (\<forall>x. x \<notin> set keys \<longrightarrow> tab x = d x)"
proof (induction keys arbitrary: d)
  case Nil
  then show ?case by simp
next
  case (Cons k keys)
  from Cons.prems obtain c where c: "collect (prop_data k) fl = Inr c"
    and rest: "line_table keys fl (d(k \<mapsto> c)) = Inr tab"
    by (auto simp: and_then_Inr)
  note ih = Cons.IH [OF rest]
  have "\<exists>col. tab k = Some col \<and> map (prop_data k) fl = map Inr col"
  proof (cases "k \<in> set keys")
    case True
    with ih show ?thesis by blast
  next
    case False
    with ih have "tab k = Some c" by simp
    with collect_spec [OF c] show ?thesis by blast
  qed
  with ih show ?case by auto
qed

lemma solid_line_spec:
  assumes "solid_line e pref fluid config keys name corr pr n data = Inr data'"
  shows "(corr = [] \<longrightarrow> data' = data) \<and>
    (corr \<noteq> [] \<longrightarrow>
      (\<exists>tmin tmax results.
         map_of corr ''Tmin'' = Some tmin \<and> map_of corr ''Tmax'' = Some tmax \<and>
         map (\<lambda>Ti. calcPoint e pref fluid config [''T'' \<mapsto> PFloat Ti, ''P'' \<mapsto> PFloat (pr Ti)])
           (linspace tmin tmax n) = map Inr results \<and>
         (List.map_filter id results = [] \<longrightarrow> data' = data) \<and>
         (List.map_filter id results \<noteq> [] \<longrightarrow>
            (\<exists>tab. line_table keys (List.map_filter id results) Map.empty = Inr tab \<and>
                   data' = data(name \<mapsto> tab)))))"
proof (cases "corr = []")
  case True
  with assms show ?thesis by (simp add: solid_line_def)
next
  case False
  with assms obtain tmin tmax fluidos where
    tmin: "map_of corr ''Tmin'' = Some tmin" and tmax: "map_of corr ''Tmax'' = Some tmax"
    and loop: "line_loop e pref fluid config pr (linspace tmin tmax n) [] = Inr fluidos"
    and fin: "(if fluidos \<noteq> [] then
                 and_then (line_table keys fluidos Map.empty) (\<lambda>tab. Inr (data(name \<mapsto> tab)))
               else Inr data) = Inr data'"
    by (auto simp: solid_line_def and_then_Inr py_getitem_Inr Let_def)
  from line_loop_spec [OF loop] obtain results where
    m: "map (\<lambda>Ti. calcPoint e pref fluid config [''T'' \<mapsto> PFloat Ti, ''P'' \<mapsto> PFloat (pr Ti)])
          (linspace tmin tmax n) = map Inr results"
    and f: "fluidos = List.map_filter id results"
    by auto
  from fin f have
    "(List.map_filter id results = [] \<longrightarrow> data' = data) \<and>
     (List.map_filter id results \<noteq> [] \<longrightarrow>
        (\<exists>tab. line_table keys (List.map_filter id results) Map.empty = Inr tab \<and>
               data' = data(name \<mapsto> tab)))"
    by (auto simp: and_then_Inr split: if_splits)
  with False tmin tmax m show ?thesis by blast
qed

lemma linspace_sample: "linspace 200 400 5 = [200, 250, 300, 350, 400]"
  by (simp add: linspace_def numeral_eq_Suc upt_rec)

lemma calculatePlot_lines_sample: "calculatePlot_lines ex_engine ex_pref ex_pref ex_fluid (ConfigParser ex_config) [''T'']
   = Inr [''melting'' \<mapsto> [''T'' \<mapsto> [Some 250, Some 300, Some 350, Some 400]]]"
  by (simp add: calculatePlot_lines_def solid_line_def get_points_def linspace_sample prop_data_def
       calcPoint_def getMethod_def ex_pref_def calcPoint_limits_def meos_option_def
       ex_config_def ex_fluid_def ex_engine_def ex_class_def and_then_def py_getitem_def
       eq_subscript_def py_index_def bound_def outside_def melting_cap_def Let_def ex_float_def)


text \<open>
  C10: \<^verbatim>\<open>get_points\<close> returns 10, 25, 50 or 100 when the \<^verbatim>\<open>definition\<close> setting is
  1, 2, 3 or 4 respectively, and 5 for every other integer; its result is always one of
  5, 10, 25, 50, 100.
\<close>

theorem get_points_values:
  "(definition_opt p = 1 \<longrightarrow> get_points p = 10) \<and>
   (definition_opt p = 2 \<longrightarrow> get_points p = 25) \<and>
   (definition_opt p = 3 \<longrightarrow> get_points p = 50) \<and>
   (definition_opt p = 4 \<longrightarrow> get_points p = 100) \<and>
   (definition_opt p \<notin> {1, 2, 3, 4} \<longrightarrow> get_points p = 5) \<and>
   get_points p \<in> {5, 10, 25, 50, 100}"
  by (simp add: get_points_def Let_def)

theorem get_points_values_witness:
  "get_points \<lparr>coolprop = False, refprop = False, definition_opt = 3\<rparr> = 50 \<and>
   get_points \<lparr>coolprop = False, refprop = False, definition_opt = 0\<rparr> = 5 \<and>
   get_points \<lparr>coolprop = False, refprop = False, definition_opt = - 7\<rparr> = 5"
  using get_points_values [of "\<lparr>coolprop = False, refprop = False, definition_opt = 3\<rparr>"]
    get_points_values [of "\<lparr>coolprop = False, refprop = False, definition_opt = 0\<rparr>"]
    get_points_values [of "\<lparr>coolprop = False, refprop = False, definition_opt = - 7\<rparr>"]
  by simp

lemma get_propiedades_loop_spec:
  assumes "\<forall>(i, b) \<in> set ps. b \<longrightarrow> - int (length props) \<le> i \<and> i < int (length props)"
    and "length ns = length ks" and "length ks = length us"
  shows "\<exists>ns' ks' us'.
           get_propiedades_loop props ps (ns, ks, us) = Inr (ns', ks', us') \<and>
           length ns' = length ks' \<and> length ks' = length us' \<and>
           map Inr (zip ns' (zip ks' us')) =
             map Inr (zip ns (zip ks us)) @ map (py_index props) (map fst (filter snd ps))"
  using assms
proof (induction ps arbitrary: ns ks us)
  case Nil
  then show ?case by simp
next
  case (Cons p ps)
  obtain i b where p: "p = (i, b)" by (cases p)
  show ?case
  proof (cases b)
    case False
    with Cons p show ?thesis by simp
  next
    case True
    with Cons.prems p have rng: "- int (length props) \<le> i \<and> i < int (length props)"
      by simp
    then obtain name key unit where ix: "py_index props i = Inr (name, key, unit)"
      by (cases "0 \<le> i") (auto simp: py_index_def intro: prod_cases3)
    have "\<forall>(i, b) \<in> set ps. b \<longrightarrow> - int (length props) \<le> i \<and> i < int (length props)"
      using Cons.prems(1) by simp
    moreover have "length (ns @ [name]) = length (ks @ [key])"
      and "length (ks @ [key]) = length (us @ [unit])"
      using Cons.prems by simp_all
    ultimately obtain ns' ks' us' where
      r: "get_propiedades_loop props ps (ns @ [name], ks @ [key], us @ [unit]) = Inr (ns', ks', us')"
        "length ns' = length ks'" "length ks' = length us'"
        "map Inr (zip ns' (zip ks' us')) =
           map Inr (zip (ns @ [name]) (zip (ks @ [key]) (us @ [unit])))
           @ map (py_index props) (map fst (filter snd ps))"
      using Cons.IH by blast
    show ?thesis
      using r ix p True Cons.prems(2,3) by simp
  qed
qed

lemma get_propiedades_loop_IndexError:
  assumes "\<exists>(i, b) \<in> set ps. b \<and> \<not> (- int (length props) \<le> i \<and> i < int (length props))"
  shows "get_propiedades_loop props ps acc = Inl IndexError"
  using assms
proof (induction ps arbitrary: acc)
  case Nil
  then show ?case by simp
next
  case (Cons p ps)
  obtain i b where p: "p = (i, b)" by (cases p)
  obtain ns ks us where acc: "acc = (ns, ks, us)" by (cases acc)
  show ?case
  proof (cases "b \<and> \<not> (- int (length props) \<le> i \<and> i < int (length props))")
    case True
    then have "py_index props i = Inl IndexError"
      by (auto simp: py_index_def)
    with True p acc show ?thesis by simp
  next
    case False
    with Cons.prems p have
      rest: "\<exists>(i, b) \<in> set ps. b \<and> \<not> (- int (length props) \<le> i \<and> i < int (length props))"
      by auto
    show ?thesis
    proof (cases b)
      case False
      with p acc Cons.IH [OF rest] show ?thesis by simp
    next
      case True
      with \<open>\<not> (b \<and> \<not> (- int (length props) \<le> i \<and> i < int (length props)))\<close>
      have "- int (length props) \<le> i \<and> i < int (length props)" by simp
      then obtain name key unit where "py_index props i = Inr (name, key, unit)"
        by (cases "0 \<le> i") (auto simp: py_index_def intro: prod_cases3)
      with True p acc Cons.IH [OF rest] show ?thesis by simp
    qed
  qed
qed

lemma get_propiedades_IndexError:
  assumes "\<exists>(i, b) \<in> set (zip (conf_propertiesOrder config) (conf_properties config)).
             b \<and> \<not> (- int (length props) \<le> i \<and> i < int (length props))"
  shows "get_propiedades props config = Inl IndexError"
  using get_propiedades_loop_IndexError [OF assms]
  by (simp add: get_propiedades_def)

text \<open>
  C7: for every configuration in which each index of \<^verbatim>\<open>propertiesOrder\<close> that is paired
  with a true flag is an index of \<^verbatim>\<open>ThermoAdvanced.properties()\<close> (Python's negative
  indices included), \<^verbatim>\<open>get_propiedades\<close> returns three lists of equal length that hold,
  in the order of the \<^verbatim>\<open>propertiesOrder\<close> index list, exactly the (name, key, unit)
  triples of the property list at the indices whose positionally paired flag of the
  \<^verbatim>\<open>properties\<close> list is true.
\<close>

theorem get_propiedades_selected:
  assumes "\<forall>(i, b) \<in> set (zip (conf_propertiesOrder config) (conf_properties config)).
             b \<longrightarrow> - int (length props) \<le> i \<and> i < int (length props)"
  shows "\<exists>propiedades keys units.
           get_propiedades props config = Inr (propiedades, keys, units) \<and>
           length propiedades = length keys \<and> length keys = length units \<and>
           map Inr (zip propiedades (zip keys units)) =
             map (py_index props)
               (map fst (filter snd (zip (conf_propertiesOrder config) (conf_properties config))))"
  using get_propiedades_loop_spec [OF assms, of "[]" "[]" "[]"]
  by (simp add: get_propiedades_def)

theorem get_propiedades_selected_witness:
  "get_propiedades [(''Temperature'', ''T'', 0::nat), (''Pressure'', ''P'', 1), (''Density'', ''rho'', 2)]
     \<lparr>conf_fluid = 0, conf_eq = 0, conf_visco = 0, conf_thermal = 0,
      conf_properties = [True, False, True], conf_propertiesOrder = [2, 0, - 2]\<rparr>
   = Inr ([''Density'', ''Pressure''], [''rho'', ''P''], [2, 1]) \<and>
   (\<exists>propiedades keys units.
      get_propiedades [(''Temperature'', ''T'', 0::nat), (''Pressure'', ''P'', 1), (''Density'', ''rho'', 2)]
        \<lparr>conf_fluid = 0, conf_eq = 0, conf_visco = 0, conf_thermal = 0,
         conf_properties = [True, False, True], conf_propertiesOrder = [2, 0, - 2]\<rparr>
      = Inr (propiedades, keys, units) \<and>
      length propiedades = length keys \<and> length keys = length units \<and>
      map Inr (zip propiedades (zip keys units)) =
        [Inr (''Density'', ''rho'', 2) :: py_error + string \<times> string \<times> nat, Inr (''Pressure'', ''P'', 1)])"
proof -
  let ?props = "[(''Temperature'', ''T'', 0::nat), (''Pressure'', ''P'', 1), (''Density'', ''rho'', 2)]"
  let ?config = "\<lparr>conf_fluid = 0, conf_eq = 0, conf_visco = 0, conf_thermal = 0,
      conf_properties = [True, False, True], conf_propertiesOrder = [2, 0, - 2]\<rparr>"
  have h: "\<forall>(i, b) \<in> set (zip (conf_propertiesOrder ?config) (conf_properties ?config)).
             b \<longrightarrow> - int (length ?props) \<le> i \<and> i < int (length ?props)"
    by simp
  have sel: "map (py_index ?props)
         (map fst (filter snd (zip (conf_propertiesOrder ?config) (conf_properties ?config))))
       = [Inr (''Density'', ''rho'', 2) :: py_error + string \<times> string \<times> nat, Inr (''Pressure'', ''P'', 1)]"
    by (simp add: py_index_def)
  have run: "get_propiedades ?props ?config
       = Inr ([''Density'', ''Pressure''], [''rho'', ''P''], [2, 1])"
    by (simp add: get_propiedades_def py_index_def)
  have ex: "\<exists>propiedades keys units.
      get_propiedades ?props ?config = Inr (propiedades, keys, units) \<and>
      length propiedades = length keys \<and> length keys = length units \<and>
      map Inr (zip propiedades (zip keys units)) =
        [Inr (''Density'', ''rho'', 2) :: py_error + string \<times> string \<times> nat, Inr (''Pressure'', ''P'', 1)]"
    using get_propiedades_selected [OF h] unfolding sel .
  from run ex show ?thesis by (rule conjI)
qed

text \<open>
  The statement does not hold for every configuration: with the flags \<^verbatim>\<open>[True, True]\<close>
  and the order \<^verbatim>\<open>[0, 3]\<close> on a list of three properties, the second index is outside
  the list and \<^verbatim>\<open>get_propiedades\<close> raises \<^verbatim>\<open>IndexError\<close> instead of returning lists.
\<close>

theorem get_propiedades_every_configuration_counterexample:
  "get_propiedades
     [(''Temperature'', ''T'', 0::nat), (''Pressure'', ''P'', 1), (''Density'', ''rho'', 2)]
     \<lparr>conf_fluid = 0, conf_eq = 0, conf_visco = 0, conf_thermal = 0,
      conf_properties = [True, True], conf_propertiesOrder = [0, 3]\<rparr>
   = Inl IndexError"
  by (simp add: get_propiedades_def py_index_def)

text \<open>
  C9: \<^verbatim>\<open>getMethod\<close> and \<^verbatim>\<open>getClassFluid\<close> agree, and the \<^verbatim>\<open>refprop\<close> preference alone
  is ignored: the method is \<^verbatim>\<open>REFPROP\<close> exactly when both flags are set (the fluid is
  then a \<^verbatim>\<open>RefProp\<close> instance), \<^verbatim>\<open>COOLPROP\<close> exactly when only \<^verbatim>\<open>coolprop\<close> is set
  (a \<^verbatim>\<open>CoolProp\<close> instance), and \<^verbatim>\<open>MEOS\<close> otherwise (an instance of the selected
  \<^verbatim>\<open>mEoS\<close> class); \<^verbatim>\<open>refprop\<close> without \<^verbatim>\<open>coolprop\<close> gives \<^verbatim>\<open>MEOS\<close>.  The fluid is
  the one the configured index selects in \<^verbatim>\<open>mEoS.__all__\<close>.
\<close>

theorem getMethod_getClassFluid_consistent:
  "(getMethod pref = ''REFPROP'' \<longleftrightarrow> coolprop pref \<and> refprop pref) \<and>
   (getMethod pref = ''COOLPROP'' \<longleftrightarrow> coolprop pref \<and> \<not> refprop pref) \<and>
   (getMethod pref = ''MEOS'' \<longleftrightarrow> \<not> coolprop pref) \<and>
   (refprop pref \<and> \<not> coolprop pref \<longrightarrow> getMethod pref = ''MEOS'') \<and>
   (\<forall>c. py_index mEoS_all i = Inr c \<longrightarrow>
      getClassFluid pref mEoS_all i =
        Inr (if getMethod pref = ''REFPROP'' then RefProp [cls_id c]
             else if getMethod pref = ''COOLPROP'' then CoolProp [cls_id c]
             else MEoS c)) \<and>
   (\<forall>e. py_index mEoS_all i = Inl e \<longrightarrow> getClassFluid pref mEoS_all i = Inl e)"
  by (simp add: getMethod_def getClassFluid_def)

theorem getMethod_getClassFluid_consistent_witness:
  "getMethod \<lparr>coolprop = False, refprop = True, definition_opt = 1\<rparr> = ''MEOS'' \<and>
   getClassFluid \<lparr>coolprop = False, refprop = True, definition_opt = 1\<rparr>
     [\<lparr>cls_id = 62, cls_name = ''water''\<rparr>, \<lparr>cls_id = 1, cls_name = ''hydrogen''\<rparr>] 1
     = Inr (MEoS \<lparr>cls_id = 1, cls_name = ''hydrogen''\<rparr>) \<and>
   getClassFluid \<lparr>coolprop = True, refprop = True, definition_opt = 1\<rparr>
     [\<lparr>cls_id = 62, cls_name = ''water''\<rparr>, \<lparr>cls_id = 1, cls_name = ''hydrogen''\<rparr>] 0
     = Inr (RefProp [62]) \<and>
   getClassFluid \<lparr>coolprop = True, refprop = False, definition_opt = 1\<rparr>
     [\<lparr>cls_id = 62, cls_name = ''water''\<rparr>, \<lparr>cls_id = 1, cls_name = ''hydrogen''\<rparr>] 2
     = Inl IndexError"
  using getMethod_getClassFluid_consistent
      [of "\<lparr>coolprop = False, refprop = True, definition_opt = 1\<rparr>"
          "[\<lparr>cls_id = 62, cls_name = ''water''\<rparr>, \<lparr>cls_id = 1, cls_name = ''hydrogen''\<rparr>]" 1]
    getMethod_getClassFluid_consistent
      [of "\<lparr>coolprop = True, refprop = True, definition_opt = 1\<rparr>"
          "[\<lparr>cls_id = 62, cls_name = ''water''\<rparr>, \<lparr>cls_id = 1, cls_name = ''hydrogen''\<rparr>]" 0]
    getMethod_getClassFluid_consistent
      [of "\<lparr>coolprop = True, refprop = False, definition_opt = 1\<rparr>"
          "[\<lparr>cls_id = 62, cls_name = ''water''\<rparr>, \<lparr>cls_id = 1, cls_name = ''hydrogen''\<rparr>]" 2]
  by (simp add: py_index_def)

lemma calcPoint_with_limits:
  assumes lim: "calcPoint_limits e (getMethod pref) fluid config kwargs0 = Inr (kwargs, Some l)"
    and T: "\<forall>v. kwargs ''T'' = Some v \<longrightarrow> (\<exists>r. v = PFloat r)"
    and P: "\<forall>v. kwargs ''P'' = Some v \<longrightarrow> (\<exists>r. v = PFloat r)"
    and cap: "(if getMethod pref = ''MEOS''
               then melting_cap e (eng_new e (fl_class fluid) kwargs) (lim_Pmax l)
               else Inr (lim_Pmax l)) = Inr Pcap"
  shows "calcPoint e pref fluid config kwargs0 =
     (let fluido = eng_new e (fl_class fluid) kwargs in
      if (\<exists>t. kwargs ''T'' = Some (PFloat t) \<and> (t < lim_Tmin l \<or> t > lim_Tmax l))
         \<or> (\<exists>p. kwargs ''P'' = Some (PFloat p) \<and> (p < lim_Pmin l - 1 \<or> p > lim_Pmax l + 1))
         \<or> fl_status fluido \<notin> {1, 3}
         \<or> fl_P fluido < lim_Pmin l - 1 \<or> fl_P fluido > Pcap + 1
         \<or> fl_T fluido < lim_Tmin l \<or> fl_T fluido > lim_Tmax l
      then Inr None else Inr (Some fluido))"
proof -
  have rT: "(case kwargs ''T'' of None \<Rightarrow> Inr False
         | Some v \<Rightarrow> and_then (bound (Some l)) (\<lambda>l. outside v (lim_Tmin l) (lim_Tmax l)))
       = Inr (\<exists>t. kwargs ''T'' = Some (PFloat t) \<and> (t < lim_Tmin l \<or> t > lim_Tmax l))"
    using T by (cases "kwargs ''T''") (auto simp: bound_def and_then_def outside_def)
  have rP: "(case kwargs ''P'' of None \<Rightarrow> Inr False
         | Some v \<Rightarrow> and_then (bound (Some l)) (\<lambda>l. outside v (lim_Pmin l - 1) (lim_Pmax l + 1)))
       = Inr (\<exists>p. kwargs ''P'' = Some (PFloat p) \<and> (p < lim_Pmin l - 1 \<or> p > lim_Pmax l + 1))"
    using P by (cases "kwargs ''P''") (auto simp: bound_def and_then_def outside_def)
  show ?thesis
  proof (cases "getMethod pref = ''MEOS''")
    case True
    with cap have "melting_cap e (eng_new e (fl_class fluid) kwargs) (lim_Pmax l) = Inr Pcap"
      by simp
    then show ?thesis
      unfolding calcPoint_def Let_def lim
      by (simp add: rT rP True and_then_def bound_def)
  next
    case False
    with cap have "Pcap = lim_Pmax l" by simp
    then show ?thesis
      unfolding calcPoint_def Let_def lim
      by (simp add: rT rP False and_then_def bound_def)
  qed
qed

lemma calcPoint_refprop_cases:
  assumes "coolprop pref" "refprop pref"
  shows "calcPoint e pref fluid config kwargs =
     (if kwargs ''T'' = None \<and> kwargs ''P'' = None
         \<and> fl_status (eng_new e (fl_class fluid) kwargs) \<notin> {1, 3}
      then Inr None else Inl UnboundLocalError)"
  using assms
  by (auto simp: calcPoint_def getMethod_def calcPoint_limits_def and_then_def bound_def Let_def
      split: option.splits)


text \<open>
  C1: \<^verbatim>\<open>calcPoint\<close> should return \<^verbatim>\<open>None\<close> for an input or a state outside the limits
  of the equation and the state object otherwise, for every fluid and every keyword
  input.  With the method \<^verbatim>\<open>REFPROP\<close> (both preference flags set) the limits are never
  assigned: for every engine, fluid and configuration, a call with a temperature and a
  pressure raises \<^verbatim>\<open>UnboundLocalError\<close> and returns neither.
\<close>

theorem calcPoint_refprop_unbound:
  "calcPoint e \<lparr>coolprop = True, refprop = True, definition_opt = 1\<rparr> fluid config
     [''T'' \<mapsto> PFloat 300, ''P'' \<mapsto> PFloat 101325] = Inl UnboundLocalError"
  by (simp add: calcPoint_def getMethod_def calcPoint_limits_def and_then_def bound_def)


text \<open>
  C6: with the method \<^verbatim>\<open>MEOS\<close> and a fluid that has a melting correlation,
  \<^verbatim>\<open>calculatePlot\<close> samples exactly \<^verbatim>\<open>points\<close> temperatures, linearly spaced from the
  \<^verbatim>\<open>Tmin\<close> to the \<^verbatim>\<open>Tmax\<close> of the correlation, calls \<^verbatim>\<open>calcPoint\<close> at each with the
  melting pressure of that temperature, and the melting line holds, property by property,
  the states \<^verbatim>\<open>calcPoint\<close> accepted (no line is stored when none was accepted).  With any
  other method neither a melting nor a sublimation line is computed.
\<close>

theorem calculatePlot_melting_line:
  assumes "calculatePlot_lines e pref Preferences fluid config keys = Inr data"
  shows
   "(getMethod pref \<noteq> ''MEOS'' \<longrightarrow> data ''melting'' = None \<and> data ''sublimation'' = None) \<and>
    (getMethod pref = ''MEOS'' \<and> cl_melting (fl_class fluid) = [] \<longrightarrow> data ''melting'' = None) \<and>
    (getMethod pref = ''MEOS'' \<and> cl_melting (fl_class fluid) \<noteq> [] \<longrightarrow>
       (\<exists>tmin tmax T results accepted.
          map_of (cl_melting (fl_class fluid)) ''Tmin'' = Some tmin \<and>
          map_of (cl_melting (fl_class fluid)) ''Tmax'' = Some tmax \<and>
          T = linspace tmin tmax (get_points Preferences) \<and>
          length T = get_points Preferences \<and>
          (\<forall>i < length T.
             T ! i = tmin + real i * ((tmax - tmin) / real (get_points Preferences - 1))) \<and>
          map (\<lambda>Ti. calcPoint e pref fluid config
                 [''T'' \<mapsto> PFloat Ti,
                  ''P'' \<mapsto> PFloat (eng_Melting_Pressure e (fl_class fluid) Ti)]) T
            = map Inr results \<and>
          accepted = List.map_filter id results \<and>
          (accepted = [] \<longrightarrow> data ''melting'' = None) \<and>
          (accepted \<noteq> [] \<longrightarrow>
             (\<exists>tab. data ''melting'' = Some tab \<and>
                (\<forall>x\<in>set keys. \<exists>col. tab x = Some col \<and>
                   map (prop_data x) accepted = map Inr col)))))"
proof (cases "getMethod pref = ''MEOS''")
  case False
  with assms have "data = Map.empty"
    by (simp add: calculatePlot_lines_def Let_def)
  with False show ?thesis by simp
next
  case True
  let ?cls = "fl_class fluid"
  from assms True obtain data1 where
    mel: "solid_line e pref fluid config keys ''melting'' (cl_melting ?cls)
            (eng_Melting_Pressure e ?cls) (get_points Preferences) Map.empty = Inr data1"
    and sub: "solid_line e pref fluid config keys ''sublimation'' (cl_sublimation ?cls)
            (eng_Sublimation_Pressure e ?cls) (get_points Preferences) data1 = Inr data"
    by (auto simp: calculatePlot_lines_def Let_def and_then_Inr)
  have keep: "data ''melting'' = data1 ''melting''"
    using solid_line_spec [OF sub] by (cases "cl_sublimation ?cls = []") auto
  note m = solid_line_spec [OF mel]
  show ?thesis
  proof (cases "cl_melting ?cls = []")
    case True
    with m keep \<open>getMethod pref = ''MEOS''\<close> show ?thesis by simp
  next
    case False
    with m obtain tmin tmax results where
      t: "map_of (cl_melting ?cls) ''Tmin'' = Some tmin"
         "map_of (cl_melting ?cls) ''Tmax'' = Some tmax"
      and r: "map (\<lambda>Ti. calcPoint e pref fluid config
                 [''T'' \<mapsto> PFloat Ti, ''P'' \<mapsto> PFloat (eng_Melting_Pressure e ?cls Ti)])
               (linspace tmin tmax (get_points Preferences)) = map Inr results"
      and e: "List.map_filter id results = [] \<longrightarrow> data1 = Map.empty"
      and n: "List.map_filter id results \<noteq> [] \<longrightarrow>
            (\<exists>tab. line_table keys (List.map_filter id results) Map.empty = Inr tab \<and>
                   data1 = [''melting'' \<mapsto> tab])"
      by blast
    have e': "List.map_filter id results = [] \<longrightarrow> data ''melting'' = None"
      using e keep by simp
    have n': "List.map_filter id results \<noteq> [] \<longrightarrow>
             (\<exists>tab. data ''melting'' = Some tab \<and>
                (\<forall>x\<in>set keys. \<exists>col. tab x = Some col \<and>
                   map (prop_data x) (List.map_filter id results) = map Inr col))"
    proof
      assume "List.map_filter id results \<noteq> []"
      with n obtain tab where
        tab: "line_table keys (List.map_filter id results) Map.empty = Inr tab"
        and d1: "data1 = [''melting'' \<mapsto> tab]" by blast
      from d1 keep have "data ''melting'' = Some tab" by simp
      with line_table_spec [OF tab] show
        "\<exists>tab. data ''melting'' = Some tab \<and>
                (\<forall>x\<in>set keys. \<exists>col. tab x = Some col \<and>
                   map (prop_data x) (List.map_filter id results) = map Inr col)"
        by blast
    qed
    have len: "length (linspace tmin tmax (get_points Preferences)) = get_points Preferences"
      by (rule length_linspace)
    have nth: "\<forall>i < length (linspace tmin tmax (get_points Preferences)).
             linspace tmin tmax (get_points Preferences) ! i
               = tmin + real i * ((tmax - tmin) / real (get_points Preferences - 1))"
      by (simp add: length_linspace nth_linspace)
    have "\<exists>tmin tmax T results accepted.
          map_of (cl_melting ?cls) ''Tmin'' = Some tmin \<and>
          map_of (cl_melting ?cls) ''Tmax'' = Some tmax \<and>
          T = linspace tmin tmax (get_points Preferences) \<and>
          length T = get_points Preferences \<and>
          (\<forall>i < length T.
             T ! i = tmin + real i * ((tmax - tmin) / real (get_points Preferences - 1))) \<and>
          map (\<lambda>Ti. calcPoint e pref fluid config
                 [''T'' \<mapsto> PFloat Ti,
                  ''P'' \<mapsto> PFloat (eng_Melting_Pressure e ?cls Ti)]) T
            = map Inr results \<and>
          accepted = List.map_filter id results \<and>
          (accepted = [] \<longrightarrow> data ''melting'' = None) \<and>
          (accepted \<noteq> [] \<longrightarrow>
             (\<exists>tab. data ''melting'' = Some tab \<and>
                (\<forall>x\<in>set keys. \<exists>col. tab x = Some col \<and>
                   map (prop_data x) accepted = map Inr col)))"
      apply (rule exI [of _ tmin])
      apply (rule exI [of _ tmax])
      apply (rule exI [of _ "linspace tmin tmax (get_points Preferences)"])
      apply (rule exI [of _ results])
      apply (rule exI [of _ "List.map_filter id results"])
      apply (intro conjI)
              apply (rule t(1))
             apply (rule t(2))
            apply (rule refl)
           apply (rule len)
          apply (rule nth)
         apply (rule r)
        apply (rule refl)
       apply (rule e')
      apply (rule n')
      done
    then have ex: "getMethod pref = ''MEOS'' \<and> cl_melting ?cls \<noteq> [] \<longrightarrow>
       (\<exists>tmin tmax T results accepted.
          map_of (cl_melting ?cls) ''Tmin'' = Some tmin \<and>
          map_of (cl_melting ?cls) ''Tmax'' = Some tmax \<and>
          T = linspace tmin tmax (get_points Preferences) \<and>
          length T = get_points Preferences \<and>
          (\<forall>i < length T.
             T ! i = tmin + real i * ((tmax - tmin) / real (get_points Preferences - 1))) \<and>
          map (\<lambda>Ti. calcPoint e pref fluid config
                 [''T'' \<mapsto> PFloat Ti,
                  ''P'' \<mapsto> PFloat (eng_Melting_Pressure e ?cls Ti)]) T
            = map Inr results \<and>
          accepted = List.map_filter id results \<and>
          (accepted = [] \<longrightarrow> data ''melting'' = None) \<and>
          (accepted \<noteq> [] \<longrightarrow>
             (\<exists>tab. data ''melting'' = Some tab \<and>
                (\<forall>x\<in>set keys. \<exists>col. tab x = Some col \<and>
                   map (prop_data x) accepted = map Inr col))))"
      by (rule impI)
    have c1: "getMethod pref \<noteq> ''MEOS'' \<longrightarrow>
        data ''melting'' = None \<and> data ''sublimation'' = None"
      using \<open>getMethod pref = ''MEOS''\<close> by simp
    have c2: "getMethod pref = ''MEOS'' \<and> cl_melting ?cls = [] \<longrightarrow> data ''melting'' = None"
      using False by simp
    from c1 c2 ex show ?thesis by (intro conjI)
  qed
qed

theorem calculatePlot_melting_line_witness:
  "calculatePlot_lines ex_engine ex_pref ex_pref ex_fluid (ConfigParser ex_config) [''T'']
     = Inr [''melting'' \<mapsto> [''T'' \<mapsto> [Some 250, Some 300, Some 350, Some 400]]] \<and>
   getMethod ex_pref = ''MEOS'' \<and> cl_melting (fl_class ex_fluid) \<noteq> [] \<and>
   (\<exists>tmin tmax T results accepted.
      map_of (cl_melting (fl_class ex_fluid)) ''Tmin'' = Some tmin \<and>
      map_of (cl_melting (fl_class ex_fluid)) ''Tmax'' = Some tmax \<and>
      T = linspace tmin tmax (get_points ex_pref) \<and>
      length T = get_points ex_pref \<and>
      (\<forall>i < length T.
         T ! i = tmin + real i * ((tmax - tmin) / real (get_points ex_pref - 1))) \<and>
      map (\<lambda>Ti. calcPoint ex_engine ex_pref ex_fluid (ConfigParser ex_config)
             [''T'' \<mapsto> PFloat Ti,
              ''P'' \<mapsto> PFloat (eng_Melting_Pressure ex_engine (fl_class ex_fluid) Ti)]) T
        = map Inr results \<and>
      accepted = List.map_filter id results \<and>
      (accepted = [] \<longrightarrow>
         [''melting'' \<mapsto> [''T'' \<mapsto> [Some 250, Some 300, Some 350, Some (400::real)]]] ''melting''
           = None) \<and>
      (accepted \<noteq> [] \<longrightarrow>
         (\<exists>tab. [''melting'' \<mapsto> [''T'' \<mapsto> [Some 250, Some 300, Some 350, Some 400]]] ''melting''
                  = Some tab \<and>
            (\<forall>x\<in>set [''T'']. \<exists>col. tab x = Some col \<and>
               map (prop_data x) accepted = map Inr col))))"
proof -
  have m: "getMethod ex_pref = ''MEOS''"
    by (simp add: getMethod_def ex_pref_def)
  have c: "cl_melting (fl_class ex_fluid) \<noteq> []"
    by (simp add: ex_fluid_def ex_engine_def ex_class_def)
  note t = calculatePlot_melting_line [OF calculatePlot_lines_sample]
  from t [THEN conjunct2, THEN conjunct2, THEN mp, OF conjI [OF m c]]
    calculatePlot_lines_sample m c
  show ?thesis by (intro conjI)
qed

lemma plot2D3D_lines_2D:
  assumes "data ''sublimation'' = Some sub" "sub x = Some cx" "sub y = Some cy" "\<not> z_given z"
    and "plot2D3D_melting fx fy fz data x y z calls = Inr (calls', locals)"
  shows "plot2D3D_lines fx fy fz data x y z calls =
     Inr (calls' @ [\<lparr>pc_x = map fx cx, pc_y = map fy cy, pc_z = None,
                      pc_label = ''Sublimation Line''\<rparr>])"
  using assms
  by (simp add: plot2D3D_lines_def plot2D3D_sublimation_def data_column_def and_then_def
      py_getitem_def Let_def)

lemma plot2D3D_lines_3D:
  assumes "data ''sublimation'' = Some sub" "sub x = Some cx" "sub y = Some cy"
    and "data ''melting'' = Some mel" "mel x = Some mx" "mel y = Some my" "mel k = Some mz"
    and "k \<noteq> []"
  shows "plot2D3D_lines fx fy fz data x y (Some k) calls =
     Inr (calls @
       [\<lparr>pc_x = map fx mx, pc_y = map fy my, pc_z = Some (map fz mz), pc_label = ''Melting Line''\<rparr>,
        \<lparr>pc_x = map fx mx, pc_y = map fy my, pc_z = Some (map fz mz),
         pc_label = ''Sublimation Line''\<rparr>])"
  using assms
  by (simp add: plot2D3D_lines_def plot2D3D_melting_def plot2D3D_sublimation_def
      data_column_def data_column_z_def and_then_def py_getitem_def Let_def z_given_def
      local_var_def)

lemma plot2D3D_lines_3D_no_melting:
  assumes "data ''sublimation'' = Some sub" "sub x = Some cx" "sub y = Some cy"
    and "data ''melting'' = None" "k \<noteq> []"
  shows "plot2D3D_lines fx fy fz data x y (Some k) calls = Inl KeyError"
  using assms
  by (simp add: plot2D3D_lines_def plot2D3D_melting_def plot2D3D_sublimation_def
      data_column_def data_column_z_def and_then_def py_getitem_def Let_def z_given_def)

text \<open>
  C4: for a plot whose data has a \<^verbatim>\<open>sublimation\<close> entry, \<^verbatim>\<open>plot2D3D\<close> should draw the line
  labelled "Sublimation Line" from the x, y and (in 3D) z arrays of the sublimation data.
  In a 3D plot it draws the arrays of the melting data under that label: on data whose
  melting line is the point (1, 2, 3) and whose sublimation line is the point
  (10, 20, 30), the line labelled "Sublimation Line" is the point (1, 2, 3).
\<close>

theorem plot2D3D_sublimation_3D_draws_melting:
  "plot2D3D_lines id id id ex_plot_data ''T'' ''P'' (Some ''s'') [] =
     Inr [\<lparr>pc_x = [Some 1], pc_y = [Some 2], pc_z = Some [Some 3], pc_label = ''Melting Line''\<rparr>,
          \<lparr>pc_x = [Some 1], pc_y = [Some 2], pc_z = Some [Some 3],
           pc_label = ''Sublimation Line''\<rparr>]"
  by (simp add: plot2D3D_lines_def plot2D3D_melting_def plot2D3D_sublimation_def
      data_column_def data_column_z_def and_then_def py_getitem_def Let_def z_given_def
      local_var_def ex_plot_data_def)

lemma fill_inputs_total:
  "set keys \<subseteq> dom (fl_kwargs fluid) \<Longrightarrow> \<exists>inputs'. fill_inputs fluid keys inputs = Inr inputs'"
proof (induction fluid keys inputs rule: fill_inputs.induct)
  case (1 fluid key keys inp inputs)
  then obtain v rest where "fl_kwargs fluid key = Some v"
    "fill_inputs fluid keys inputs = Inr rest" by auto
  then show ?case by (simp add: and_then_def py_getitem_def)
qed simp_all

lemma AddPoint_update_total:
  assumes "cl_is_meos (fl_class (ap_fluid dlg)) \<and> cl_melting (fl_class (ap_fluid dlg)) \<noteq> []
           \<longrightarrow> ap_checkMelting dlg \<noteq> None"
    and "\<forall>kw. set AddPoint_keys \<subseteq> dom (fl_kwargs (eng_call e (ap_fluid dlg) kw))"
  shows "\<exists>dlg'. AddPoint_update e key value dlg = Inr dlg'"
proof -
  let ?fluid = "ap_fluid dlg"
  have "\<exists>melting. AddPoint_melting (setState 4 None dlg) key = Inr melting"
    using assms(1)
    by (cases "ap_checkMelting dlg") (auto simp: AddPoint_melting_def setState_def Let_def)
  then obtain melting where m: "AddPoint_melting (setState 4 None dlg) key = Inr melting" ..
  define kw where "kw = (if melting then
       [key \<mapsto> PFloat value,
        ''P'' \<mapsto> PFloat (eng_Melting_Pressure e (fl_class ?fluid) value)]
     else [key \<mapsto> PFloat value])"
  define d1 where "d1 = (setState 4 None dlg)\<lparr>ap_fluid := eng_call e ?fluid kw\<rparr>"
  have "\<exists>inputs'. fill_inputs (eng_call e ?fluid kw) AddPoint_keys (ap_Inputs d1) = Inr inputs'"
    using assms(2) by (intro fill_inputs_total) simp
  then obtain d2 where d2: "fill (eng_call e ?fluid kw) d1 = Inr d2"
    by (auto simp: fill_def and_then_def)
  have "AddPoint_update e key value dlg =
      and_then (if fl_status (ap_fluid d1) \<in> {1, 3} then fill (ap_fluid d1) d1 else Inr d1)
        (\<lambda>dlg. Inr (setState (fl_status (ap_fluid dlg)) (Some (fl_msg (ap_fluid dlg))) dlg))"
    unfolding AddPoint_update_def Let_def m
    by (cases melting) (simp_all add: and_then_def setState_def d1_def kw_def)
  moreover have "ap_fluid d1 = eng_call e ?fluid kw"
    by (simp add: d1_def)
  ultimately show ?thesis
    using d2 by (simp add: and_then_def)
qed


lemma AddPoint_init_checkMelting:
  "cl_is_meos (fl_class (ap_fluid (AddPoint_init fluid melting n))) \<and>
   cl_melting (fl_class (ap_fluid (AddPoint_init fluid melting n))) \<noteq> []
   \<longrightarrow> ap_checkMelting (AddPoint_init fluid melting n) \<noteq> None"
  by (simp add: AddPoint_init_def)

lemma AddPoint_melting_value:
  assumes "cl_is_meos (fl_class (ap_fluid dlg)) \<and> cl_melting (fl_class (ap_fluid dlg)) \<noteq> []
           \<longrightarrow> ap_checkMelting dlg \<noteq> None"
  shows "AddPoint_melting (setState 4 None dlg) key =
     Inr (cl_is_meos (fl_class (ap_fluid dlg)) \<and> cl_melting (fl_class (ap_fluid dlg)) \<noteq> [] \<and>
          ap_checkMelting dlg = Some True \<and> key = ''T'')"
  using assms
  by (cases "ap_checkMelting dlg") (auto simp: AddPoint_melting_def setState_def Let_def)

lemma AddPoint_update_unfold:
  assumes m: "AddPoint_melting (setState 4 None dlg) key = Inr melting"
  shows "AddPoint_update e key value dlg =
     (let f = eng_call e (ap_fluid dlg)
               (if melting then
                  [key \<mapsto> PFloat value,
                   ''P'' \<mapsto> PFloat (eng_Melting_Pressure e (fl_class (ap_fluid dlg)) value)]
                else [key \<mapsto> PFloat value]);
          d1 = dlg\<lparr>ap_status := ap_status dlg @ [(4, None)], ap_fluid := f\<rparr>
      in and_then (if fl_status f \<in> {1, 3} then fill f d1 else Inr d1)
           (\<lambda>d. Inr (setState (fl_status (ap_fluid d)) (Some (fl_msg (ap_fluid d))) d)))"
  unfolding AddPoint_update_def Let_def m
  by (cases melting) (simp_all add: and_then_def setState_def)


lemma fill_checkMelting:
  "fill f d = Inr d' \<Longrightarrow> ap_checkMelting d' = ap_checkMelting d \<and> ap_fluid d' = ap_fluid d"
  by (auto simp: fill_def and_then_Inr)

lemma AddPoint_update_checkMelting:
  assumes cls: "\<forall>kw. fl_class (eng_call e (ap_fluid dlg) kw) = fl_class (ap_fluid dlg)"
    and run: "AddPoint_update e key v dlg = Inr dlg'"
    and inv: "cl_is_meos (fl_class (ap_fluid dlg)) \<and> cl_melting (fl_class (ap_fluid dlg)) \<noteq> []
           \<longrightarrow> ap_checkMelting dlg \<noteq> None"
  shows "cl_is_meos (fl_class (ap_fluid dlg')) \<and> cl_melting (fl_class (ap_fluid dlg')) \<noteq> []
           \<longrightarrow> ap_checkMelting dlg' \<noteq> None"
proof -
  define kw where "kw =
     (if cl_is_meos (fl_class (ap_fluid dlg)) \<and> cl_melting (fl_class (ap_fluid dlg)) \<noteq> [] \<and>
         ap_checkMelting dlg = Some True \<and> key = ''T''
      then [key \<mapsto> PFloat v,
            ''P'' \<mapsto> PFloat (eng_Melting_Pressure e (fl_class (ap_fluid dlg)) v)]
      else [key \<mapsto> PFloat v])"
  define d1 where
    "d1 = dlg\<lparr>ap_status := ap_status dlg @ [(4, None)], ap_fluid := eng_call e (ap_fluid dlg) kw\<rparr>"
  have "AddPoint_update e key v dlg =
      and_then (if fl_status (eng_call e (ap_fluid dlg) kw) \<in> {1, 3}
                then fill (eng_call e (ap_fluid dlg) kw) d1 else Inr d1)
        (\<lambda>d. Inr (setState (fl_status (ap_fluid d)) (Some (fl_msg (ap_fluid d))) d))"
    using AddPoint_update_unfold [OF AddPoint_melting_value [OF inv], of e key v]
    by (simp add: Let_def kw_def d1_def)
  with run obtain d where
    d: "(if fl_status (eng_call e (ap_fluid dlg) kw) \<in> {1, 3}
         then fill (eng_call e (ap_fluid dlg) kw) d1 else Inr d1) = Inr d"
    and r: "dlg' = setState (fl_status (ap_fluid d)) (Some (fl_msg (ap_fluid d))) d"
    by (auto simp: and_then_Inr)
  from d have "ap_checkMelting d = ap_checkMelting d1 \<and> ap_fluid d = ap_fluid d1"
    by (auto split: if_splits dest!: fill_checkMelting)
  then have "ap_checkMelting dlg' = ap_checkMelting dlg"
    and "ap_fluid dlg' = eng_call e (ap_fluid dlg) kw"
    using r by (simp_all add: setState_def d1_def)
  with cls inv show ?thesis by simp
qed

lemma AddPoint_reset_checkMelting:
  assumes "fl_class (eng_init e (fl_class (ap_fluid dlg))) = fl_class (ap_fluid dlg)"
    and "cl_is_meos (fl_class (ap_fluid dlg)) \<and> cl_melting (fl_class (ap_fluid dlg)) \<noteq> []
           \<longrightarrow> ap_checkMelting dlg \<noteq> None"
  shows "cl_is_meos (fl_class (ap_fluid (AddPoint_reset e dlg))) \<and>
         cl_melting (fl_class (ap_fluid (AddPoint_reset e dlg))) \<noteq> []
           \<longrightarrow> ap_checkMelting (AddPoint_reset e dlg) \<noteq> None"
  using assms by (simp add: AddPoint_reset_def setState_def Let_def)

lemma AddPoint_update_fill_KeyError:
  assumes "ap_checkMelting dlg = Some False"
    and "fl_status (eng_call e (ap_fluid dlg) [key \<mapsto> PFloat v]) \<in> {1, 3}"
    and "ap_Inputs dlg \<noteq> []"
    and "fl_kwargs (eng_call e (ap_fluid dlg) [key \<mapsto> PFloat v]) ''T'' = None"
  shows "AddPoint_update e key v dlg = Inl KeyError"
proof -
  have m: "AddPoint_melting (setState 4 None dlg) key = Inr False"
    using assms(1) by (simp add: AddPoint_melting_def setState_def Let_def)
  obtain inp inputs where i: "ap_Inputs dlg = inp # inputs"
    using assms(3) by (cases "ap_Inputs dlg") auto
  show ?thesis
    unfolding AddPoint_update_unfold [OF m] Let_def
    using assms(2,4) i
    by (simp add: fill_def AddPoint_keys_def and_then_def py_getitem_def)
qed



lemma getMethod_cases:
  "getMethod pref = ''REFPROP'' \<or> getMethod pref = ''COOLPROP'' \<or> getMethod pref = ''MEOS''"
  by (simp add: getMethod_def)

lemma plot_filename_inj:
  assumes "plot_filename p1 f1 = plot_filename p2 f2"
  shows "getMethod p1 = getMethod p2 \<and> cl_name (fl_class f1) = cl_name (fl_class f2)"
  using assms getMethod_cases [of p1] getMethod_cases [of p2]
  by (auto simp: plot_filename_def)

lemma saveData_then_getData:
  assumes "pk_load pk (pk_dump pk data) = Inr data" "env_pychemqt env = Some home"
    and "PlotMEoS_saveData env pk filename data fs = Inr fs'"
  shows "fs_files fs' (env_conf_dir env @ filename) = Some (pk_dump pk data)"
    and "PlotMEoS_getData env pk filename fs' = Inr (Some data, fs')"
  using assms
  by (auto simp: PlotMEoS_saveData_def PlotMEoS_getData_def filenameSoft_def and_then_def Let_def
      split: if_splits)

text \<open>
  C2: the precomputed data of a plot is kept as one pickled blob per method and fluid.
  \<^verbatim>\<open>plugin.plot\<close> names the file \<^verbatim>\<open><method>-<fluidname>.pkl\<close> (a name that determines the
  method and the fluid name); \<^verbatim>\<open>_saveData\<close> writes the dictionary to that file in the
  configuration directory; \<^verbatim>\<open>_getData\<close> after \<^verbatim>\<open>_saveData\<close> returns the dictionary saved;
  \<^verbatim>\<open>_getData\<close> reads the copy of the configuration directory when there is one,
  whatever the bundled gzip copy holds, and when it reads the bundled copy it saves it
  to the configuration directory.  Pickle is assumed to read back what it wrote.
\<close>

theorem plot_cache_roundtrip:
  assumes "\<forall>d. pk_load pk (pk_dump pk d) = Inr d" and "env_pychemqt env = Some home"
  shows
   "plot_filename pref fluid = getMethod pref @ ''-'' @ cl_name (fl_class fluid) @ ''.pkl'' \<and>
    (\<forall>p2 f2. plot_filename pref fluid = plot_filename p2 f2 \<longrightarrow>
       getMethod pref = getMethod p2 \<and> cl_name (fl_class fluid) = cl_name (fl_class f2)) \<and>
    (\<forall>fs'. PlotMEoS_saveData env pk filename data fs = Inr fs' \<longrightarrow>
       fs_files fs' (env_conf_dir env @ filename) = Some (pk_dump pk data) \<and>
       PlotMEoS_getData env pk filename fs' = Inr (Some data, fs')) \<and>
    (\<forall>blob d. fs_files fs (env_conf_dir env @ filename) = Some blob \<and> pk_load pk blob = Inr d \<longrightarrow>
       PlotMEoS_getData env pk filename fs = Inr (Some d, fs)) \<and>
    (\<forall>blob d. fs_files fs (env_conf_dir env @ filename) = None \<and>
       fs_files fs (filenameHard home env filename) = Some blob \<and> pk_load_gz pk blob = Inr d \<and>
       fs_writable fs (env_conf_dir env @ filename) \<longrightarrow>
       PlotMEoS_getData env pk filename fs =
         Inr (Some d, fs\<lparr>fs_files := (fs_files fs)(env_conf_dir env @ filename \<mapsto> pk_dump pk d)\<rparr>))"
proof (intro conjI allI impI)
  show "plot_filename pref fluid = getMethod pref @ ''-'' @ cl_name (fl_class fluid) @ ''.pkl''"
    by (simp add: plot_filename_def)
next
  fix p2 f2 assume "plot_filename pref fluid = plot_filename p2 f2"
  from plot_filename_inj [OF this]
  show "getMethod pref = getMethod p2" and "cl_name (fl_class fluid) = cl_name (fl_class f2)"
    by simp_all
next
  fix fs' assume s: "PlotMEoS_saveData env pk filename data fs = Inr fs'"
  from assms(1) have l: "pk_load pk (pk_dump pk data) = Inr data" by simp
  from saveData_then_getData [OF l assms(2) s]
  show "fs_files fs' (env_conf_dir env @ filename) = Some (pk_dump pk data)"
    and "PlotMEoS_getData env pk filename fs' = Inr (Some data, fs')"
    by simp_all
next
  fix blob d
  assume "fs_files fs (env_conf_dir env @ filename) = Some blob \<and> pk_load pk blob = Inr d"
  with assms(2) show "PlotMEoS_getData env pk filename fs = Inr (Some d, fs)"
    by (simp add: PlotMEoS_getData_def filenameSoft_def and_then_def)
next
  fix blob d
  assume "fs_files fs (env_conf_dir env @ filename) = None \<and>
       fs_files fs (filenameHard home env filename) = Some blob \<and> pk_load_gz pk blob = Inr d \<and>
       fs_writable fs (env_conf_dir env @ filename)"
  with assms(2) show "PlotMEoS_getData env pk filename fs =
         Inr (Some d, fs\<lparr>fs_files := (fs_files fs)(env_conf_dir env @ filename \<mapsto> pk_dump pk d)\<rparr>)"
    by (simp add: PlotMEoS_getData_def PlotMEoS_saveData_def filenameSoft_def and_then_def)
qed

theorem plot_cache_roundtrip_witness:
  "plot_filename ex_pref ex_fluid = ''MEOS-water.pkl'' \<and>
   PlotMEoS_getData ex_env ex_pickle ''MEOS-water.pkl'' ex_fs =
     Inr (Some [3, 2, 1],
          ex_fs\<lparr>fs_files := (fs_files ex_fs)(''/home/user/.pychemqt/MEOS-water.pkl'' \<mapsto> [1, 2, 3])\<rparr>) \<and>
   (\<exists>fs'. PlotMEoS_saveData ex_env ex_pickle ''MEOS-water.pkl'' [7, 8] ex_fs = Inr fs' \<and>
      PlotMEoS_getData ex_env ex_pickle ''MEOS-water.pkl'' fs' = Inr (Some [7, 8], fs'))"
proof -
  have rt: "\<forall>d. pk_load ex_pickle (pk_dump ex_pickle d) = Inr d"
    by (simp add: ex_pickle_def)
  have ev: "env_pychemqt ex_env = Some ''/opt/pychemqt/''"
    by (simp add: ex_env_def)
  note t = plot_cache_roundtrip [OF rt ev, of ex_pref ex_fluid "''MEOS-water.pkl''" _ ex_fs]
  have n: "plot_filename ex_pref ex_fluid = ''MEOS-water.pkl''"
    using t [of "[]", THEN conjunct1]
    by (simp add: getMethod_def ex_pref_def ex_fluid_def ex_engine_def ex_class_def)
  have h: "fs_files ex_fs (env_conf_dir ex_env @ ''MEOS-water.pkl'') = None \<and>
       fs_files ex_fs (filenameHard ''/opt/pychemqt/'' ex_env ''MEOS-water.pkl'') = Some [0, 3, 2, 1] \<and>
       pk_load_gz ex_pickle [0, 3, 2, 1] = Inr [3, 2, 1] \<and>
       fs_writable ex_fs (env_conf_dir ex_env @ ''MEOS-water.pkl'')"
    by (simp add: ex_fs_def ex_env_def ex_pickle_def filenameHard_def)
  have g: "PlotMEoS_getData ex_env ex_pickle ''MEOS-water.pkl'' ex_fs =
     Inr (Some [3, 2, 1],
          ex_fs\<lparr>fs_files := (fs_files ex_fs)(''/home/user/.pychemqt/MEOS-water.pkl'' \<mapsto> [1, 2, 3])\<rparr>)"
    using t [of "[]", THEN conjunct2, THEN conjunct2, THEN conjunct2, THEN conjunct2, rule_format, OF h]
    by (simp add: ex_env_def ex_pickle_def)
  obtain fs' where s: "PlotMEoS_saveData ex_env ex_pickle ''MEOS-water.pkl'' [7, 8] ex_fs = Inr fs'"
    by (simp add: PlotMEoS_saveData_def ex_fs_def)
  from t [of "[7, 8]", THEN conjunct2, THEN conjunct2, THEN conjunct1, rule_format, OF s]
  have "PlotMEoS_getData ex_env ex_pickle ''MEOS-water.pkl'' fs' = Inr (Some [7, 8], fs')"
    by simp
  with s n g show ?thesis by blast
qed

lemma list_index_nth: "list_index xs x = Inr i \<Longrightarrow> i < length xs \<and> xs ! i = x"
proof (induction xs arbitrary: i)
  case Nil
  then show ?case by simp
next
  case (Cons y ys)
  show ?case
  proof (cases "y = x")
    case True
    with Cons.prems show ?thesis by simp
  next
    case False
    with Cons.prems obtain j where j: "list_index ys x = Inr j" and i: "i = Suc j"
      by (auto simp: and_then_Inr)
    from Cons.IH [OF j] i show ?thesis by simp
  qed
qed

lemma py_index_prefix:
  "i < length xs \<Longrightarrow> py_index (xs @ ys) (int i) = Inr (xs ! i)"
  by (simp add: py_index_def nth_append)

lemma collect_list_index_back:
  "collect (list_index xs) us = Inr idx \<Longrightarrow>
   collect (py_index (xs @ ys)) (map int idx) = Inr us"
proof (induction us arbitrary: idx)
  case Nil
  then show ?case by simp
next
  case (Cons u us)
  from Cons.prems obtain i rest where i: "list_index xs u = Inr i"
    and rest: "collect (list_index xs) us = Inr rest" and idx: "idx = i # rest"
    by (auto simp: and_then_Inr)
  from list_index_nth [OF i] have "py_index (xs @ ys) (int i) = Inr u"
    by (simp add: py_index_prefix)
  with Cons.IH [OF rest] idx show ?case by (simp add: and_then_def)
qed

lemma collect_length: "collect f xs = Inr ys \<Longrightarrow> length ys = length xs"
  by (induction xs arbitrary: ys) (auto simp: and_then_Inr)

lemma collect_nth:
  "collect f xs = Inr ys \<Longrightarrow> i < length xs \<Longrightarrow> f (xs ! i) = Inr (ys ! i)"
proof (induction xs arbitrary: ys i)
  case Nil
  then show ?case by simp
next
  case (Cons x xs)
  from Cons.prems(1) obtain y rest where y: "f x = Inr y"
    and rest: "collect f xs = Inr rest" and ys: "ys = y # rest"
    by (auto simp: and_then_Inr)
  show ?case
  proof (cases i)
    case 0
    with y ys show ?thesis by simp
  next
    case (Suc j)
    with Cons.prems(2) have "j < length xs" by simp
    from Cons.IH [OF rest this] Suc ys show ?thesis by simp
  qed
qed

lemma header_collected:
  assumes "collect (\<lambda>c. attribute (h c)) [0..<n] = Inr htitle"
  shows "length htitle = n \<and> (\<forall>c<n. h c = Some (htitle ! c))"
proof -
  have len: "length htitle = n"
    using collect_length [OF assms] by simp
  have "h c = Some (htitle ! c)" if "c < n" for c
  proof -
    from that have "attribute (h ([0..<n] ! c)) = Inr (htitle ! c)"
      by (intro collect_nth [OF assms]) simp
    with that show ?thesis
      by (cases "h c") (simp_all add: attribute_def)
  qed
  with len show ?thesis by simp
qed

lemma setData_rows_result:
  "setData_rows i rows t = Inr t' \<Longrightarrow> length (tb_data t) = i \<Longrightarrow>
   t' = t\<lparr>tb_data := tb_data t @ rows\<rparr>"
proof (induction rows arbitrary: i t)
  case Nil
  then show ?case by simp
next
  case (Cons row rows)
  from Cons.prems(1) obtain t1 where t1: "setRow i row t = Inr t1"
    and rest: "setData_rows (Suc i) rows t1 = Inr t'"
    by (auto simp: and_then_Inr)
  from t1 Cons.prems(2) have e: "t1 = t\<lparr>tb_data := tb_data t @ [row]\<rparr>"
    by (auto simp: setRow_def Let_def split: if_splits)
  then have "length (tb_data t1) = Suc i" using Cons.prems(2) by simp
  from Cons.IH [OF rest this] e show ?case by simp
qed

lemma setData_rows_total:
  "list_all (row_ok (tb_format t)) rows \<Longrightarrow> \<exists>t'. setData_rows i rows t = Inr t'"
proof (induction rows arbitrary: i t)
  case Nil
  then show ?case by simp
next
  case (Cons row rows)
  let ?t1 = "t\<lparr>tb_data := take i (tb_data t) @ [row] @ drop i (tb_data t)\<rparr>"
  from Cons.prems have r: "setRow i row t = Inr ?t1"
    by (simp add: setRow_def Let_def)
  from Cons.prems have "list_all (row_ok (tb_format ?t1)) rows" by simp
  from Cons.IH [OF this] r show ?case by (simp add: and_then_def)
qed

lemma setData_result:
  assumes "setData rows t = Inr t'" "tb_data t = []"
  shows "t' = t\<lparr>tb_data := rows\<rparr> \<or>
         t' = t\<lparr>tb_data := rows, tb_rowCount := max (tb_rowCount t) (length rows)\<rparr>"
proof (cases "tb_readOnly t")
  case True
  with assms(1) show ?thesis
    by (auto simp: setData_def setStr_def split: if_splits)
next
  case False
  with assms(1) have "setData_rows 0 rows t = Inr t'" by (simp add: setData_def)
  from setData_rows_result [OF this] assms(2) show ?thesis by simp
qed

lemma setData_total:
  "list_all (row_ok (tb_format t)) rows \<Longrightarrow> \<exists>t'. setData rows t = Inr t'"
  using setData_rows_total [of t rows 0]
  by (auto simp: setData_def setStr_def)

lemma write_Point_read_back:
  assumes "write_Point mEoS_all p = Inr (method, fluid, dependences)"
    and "js_method data = Some method" "js_fluid data = Some fluid"
  shows "\<exists>q. read_Point mEoS_all data = Inr q \<and>
     (case p of
        MEoS c \<Rightarrow> q = MEoS c
      | CoolProp ids \<Rightarrow> (\<exists>i. py_index ids 0 = Inr i \<and> q = CoolProp [i])
      | RefProp ids \<Rightarrow> (\<exists>i. py_index ids 0 = Inr i \<and> q = RefProp [i]))"
proof (cases p)
  case (MEoS c)
  with assms(1) obtain i where i: "list_index mEoS_all c = Inr i"
    and m: "method = ''meos''" and f: "fluid = int i"
    by (auto simp: write_Point_def and_then_Inr)
  from list_index_nth [OF i] have "py_index mEoS_all (int i) = Inr c"
    by (simp add: py_index_def)
  with MEoS m f assms(2,3) show ?thesis
    by (simp add: read_Point_def and_then_def py_getitem_def)
next
  case (CoolProp ids)
  with assms(1) have "py_index ids 0 = Inr fluid" and "method = ''coolprop''"
    by (auto simp: write_Point_def and_then_Inr)
  with CoolProp assms(2,3) show ?thesis
    by (simp add: read_Point_def and_then_def py_getitem_def)
next
  case (RefProp ids)
  with assms(1) have "py_index ids 0 = Inr fluid" and "method = ''refprop''"
    by (auto simp: write_Point_def and_then_Inr)
  with RefProp assms(2,3) show ?thesis
    by (simp add: read_Point_def and_then_def py_getitem_def)
qed

lemma units_read_back:
  assumes "collect (list_index (all0 @ [Dimensionless])) us = Inr idx"
  shows "collect (py_index ((all0 @ replicate k Dimensionless) @ [Dimensionless])) (map int idx)
         = Inr us"
proof -
  have "(all0 @ replicate k Dimensionless) @ [Dimensionless]
        = (all0 @ [Dimensionless]) @ replicate k Dimensionless"
    by (simp add: replicate_append_same)
  with collect_list_index_back [OF assms, of "replicate k Dimensionless"]
  show ?thesis by simp
qed

lemma attribute_Inr: "attribute a = Inr v \<longleftrightarrow> a = Some v"
  by (cases a) (simp_all add: attribute_def)

lemma writeToJSON_Inr:
  assumes "TablaMEoS_writeToJSON all0 Dimensionless mEoS_all t = Inr (all1, data)"
  shows "all1 = all0 @ [Dimensionless]"
    and "js_column data = tb_columnCount t"
    and "js_title data = tb_windowTitle t"
    and "collect (\<lambda>c. attribute (tb_hHeader t c)) [0..<tb_columnCount t] = Inr (js_htitle data)"
    and "\<exists>idx. collect (list_index (all0 @ [Dimensionless])) (tb_units t) = Inr idx \<and>
               js_unit data = map int idx"
    and "js_readOnly data = tb_readOnly t"
    and "js_orderUnit data = tb_orderUnit t"
    and "js_format data = tb_format t"
    and "js_data data = tb_data t"
    and "\<not> tb_readOnly t \<Longrightarrow>
           \<exists>p method fluid dependences keys.
             tb_Point t = Some p \<and> write_Point mEoS_all p = Inr (method, fluid, dependences) \<and>
             tb_keys t = Some keys \<and> js_method data = Some method \<and>
             js_fluid data = Some fluid \<and> js_keys data = Some keys \<and>
             js_columnReadOnly data = Some (tb_columnReadOnly t)"
  using assms
  by (auto simp: TablaMEoS_writeToJSON_def Let_def and_then_Inr attribute_Inr
      split: if_splits)

lemma readFromJSON_readOnly:
  assumes "TablaMEoS_readFromJSON all_r Dimensionless mEoS_all data = Inr (all2, t')"
    and "collect (py_index (all_r @ [Dimensionless])) (js_unit data) = Inr units"
    and "js_readOnly data"
  shows "setData (js_data data)
        ((TablaMEoS_init (js_column data) 0 True None
            (js_htitle data) units (js_orderUnit data) (js_format data) None)
         \<lparr>tb_windowTitle := js_title data\<rparr>) = Inr t'"
  using assms
  by (auto simp: TablaMEoS_readFromJSON_def Let_def and_then_Inr)

lemma readFromJSON_editable:
  assumes "TablaMEoS_readFromJSON all_r Dimensionless mEoS_all data = Inr (all2, t')"
    and "collect (py_index (all_r @ [Dimensionless])) (js_unit data) = Inr units"
    and "\<not> js_readOnly data"
  shows "\<exists>keys columnReadOnly t0 q.
      js_keys data = Some keys \<and> js_columnReadOnly data = Some columnReadOnly \<and>
      setData (js_data data)
        ((TablaMEoS_init (js_column data) (length (js_data data) + 1) False
            (Some columnReadOnly) (js_htitle data) units (js_orderUnit data)
            (js_format data) (Some keys))
         \<lparr>tb_windowTitle := js_title data\<rparr>) = Inr t0 \<and>
      read_Point mEoS_all data = Inr q \<and> t' = t0\<lparr>tb_Point := Some q\<rparr>"
  using assms
  by (auto simp: TablaMEoS_readFromJSON_def Let_def and_then_Inr py_getitem_Inr)

lemma TablaMEoS_init_fields:
  "tb_columnCount ((TablaMEoS_init n filas ro cro header units order format keys)
      \<lparr>tb_windowTitle := title\<rparr>) = n"
  "tb_windowTitle ((TablaMEoS_init n filas ro cro header units order format keys)
      \<lparr>tb_windowTitle := title\<rparr>) = title"
  "tb_hHeader ((TablaMEoS_init n filas ro cro header units order format keys)
      \<lparr>tb_windowTitle := title\<rparr>) =
     (\<lambda>c. if c < n \<and> c < length header then Some (header ! c) else None)"
  "tb_readOnly ((TablaMEoS_init n filas ro cro header units order format keys)
      \<lparr>tb_windowTitle := title\<rparr>) = ro"
  "tb_columnReadOnly ((TablaMEoS_init n filas ro (Some l) header units order format keys)
      \<lparr>tb_windowTitle := title\<rparr>) = l"
  "tb_units ((TablaMEoS_init n filas ro cro header units order format keys)
      \<lparr>tb_windowTitle := title\<rparr>) = units"
  "tb_orderUnit ((TablaMEoS_init n filas ro cro header units order format keys)
      \<lparr>tb_windowTitle := title\<rparr>) = order"
  "tb_format ((TablaMEoS_init n filas ro cro header units order format keys)
      \<lparr>tb_windowTitle := title\<rparr>) = format"
  "tb_keys ((TablaMEoS_init n filas ro cro header units order format keys)
      \<lparr>tb_windowTitle := title\<rparr>) = keys"
  "tb_data ((TablaMEoS_init n filas ro cro header units order format keys)
      \<lparr>tb_windowTitle := title\<rparr>) = []"
  by (simp_all add: TablaMEoS_init_def Tabla_init_def Let_def)

lemma setData_fields:
  assumes "setData rows t = Inr t'" "tb_data t = []"
  shows "tb_data t' = rows" "tb_columnCount t' = tb_columnCount t"
    "tb_windowTitle t' = tb_windowTitle t" "tb_hHeader t' = tb_hHeader t"
    "tb_readOnly t' = tb_readOnly t" "tb_columnReadOnly t' = tb_columnReadOnly t"
    "tb_units t' = tb_units t" "tb_orderUnit t' = tb_orderUnit t"
    "tb_format t' = tb_format t" "tb_keys t' = tb_keys t" "tb_Point t' = tb_Point t"
  using setData_result [OF assms] by auto

lemma readFromJSON_total:
  assumes w: "TablaMEoS_writeToJSON all0 Dimensionless mEoS_all t = Inr (all1, data)"
    and rows: "list_all (row_ok (tb_format t)) (tb_data t)"
  shows "\<exists>all2 t'. TablaMEoS_readFromJSON (all0 @ replicate k Dimensionless) Dimensionless
            mEoS_all data = Inr (all2, t')"
proof -
  note W = writeToJSON_Inr [OF w]
  from W(5) obtain idx where
    idx: "collect (list_index (all0 @ [Dimensionless])) (tb_units t) = Inr idx"
    and ju: "js_unit data = map int idx" by blast
  have U: "collect (py_index ((all0 @ replicate k Dimensionless) @ [Dimensionless]))
             (js_unit data) = Inr (tb_units t)"
    unfolding ju by (rule units_read_back [OF idx])
  have sd: "\<exists>t0. setData (js_data data)
        ((TablaMEoS_init (js_column data) filas ro cro (js_htitle data) (tb_units t)
            (js_orderUnit data) (js_format data) keys)
         \<lparr>tb_windowTitle := js_title data\<rparr>) = Inr t0" for filas ro cro keys
    using rows W(8,9) by (intro setData_total) (simp add: TablaMEoS_init_fields)
  show ?thesis
  proof (cases "tb_readOnly t")
    case True
    with W(6) have "js_readOnly data" by simp
    with U sd [of 0 True None None] show ?thesis
      by (auto simp: TablaMEoS_readFromJSON_def Let_def and_then_def)
  next
    case False
    with W(6) have ro: "\<not> js_readOnly data" by simp
    from W(10) [OF False] obtain p mname fluid dependences keys where
      P: "write_Point mEoS_all p = Inr (mname, fluid, dependences)"
         "js_method data = Some mname" "js_fluid data = Some fluid"
         "js_keys data = Some keys" "js_columnReadOnly data = Some (tb_columnReadOnly t)"
      by blast
    from write_Point_read_back [OF P(1,2,3)] obtain q where
      q: "read_Point mEoS_all data = Inr q" by blast
    from sd [of "length (js_data data) + 1" False "Some (tb_columnReadOnly t)" "Some keys"]
    obtain t0 where "setData (js_data data)
        ((TablaMEoS_init (js_column data) (length (js_data data) + 1) False
            (Some (tb_columnReadOnly t)) (js_htitle data) (tb_units t) (js_orderUnit data)
            (js_format data) (Some keys))
         \<lparr>tb_windowTitle := js_title data\<rparr>) = Inr t0" ..
    with ro U q P(4,5) show ?thesis
      by (simp add: TablaMEoS_readFromJSON_def Let_def and_then_def py_getitem_def)
  qed
qed

lemma upt_two: "[0..<2] = [0, Suc 0]"
  by (simp add: numeral_2_eq_2 upt_rec)

lemma ex_tabla_written:
  "\<exists>all1 data. TablaMEoS_writeToJSON ex_unidades_all ''Dimensionless'' ex_mEoS_all ex_tabla
       = Inr (all1, data)"
  by (simp add: TablaMEoS_writeToJSON_def ex_tabla_def ex_unidades_all_def ex_mEoS_all_def
      upt_two attribute_def and_then_def write_Point_def Let_def)

text \<open>
  A table that \<^verbatim>\<open>writeToJSON\<close> and \<^verbatim>\<open>readFromJSON\<close> both accept comes back with the
  same column count, window title, column header titles, unit classes, number format,
  \<^verbatim>\<open>orderUnit\<close>, \<^verbatim>\<open>readOnly\<close> flag and cell data and, when it is editable, the same keys
  and \<^verbatim>\<open>columnReadOnly\<close> flags and a fresh fluid of the same method and fluid
  identifier.  The list \<^verbatim>\<open>unidades._all\<close> at the time of reading is the one at the time
  of writing, with any number of \<^verbatim>\<open>Dimensionless\<close> entries appended since.
\<close>

lemma TablaMEoS_JSON_roundtrip:
  assumes w: "TablaMEoS_writeToJSON all0 Dimensionless mEoS_all t = Inr (all1, data)"
    and r: "TablaMEoS_readFromJSON (all0 @ replicate k Dimensionless) Dimensionless mEoS_all data
              = Inr (all2, t')"
  shows "tb_columnCount t' = tb_columnCount t \<and>
    tb_windowTitle t' = tb_windowTitle t \<and>
    (\<forall>c < tb_columnCount t. tb_hHeader t' c = tb_hHeader t c) \<and>
    tb_units t' = tb_units t \<and>
    tb_format t' = tb_format t \<and>
    tb_orderUnit t' = tb_orderUnit t \<and>
    tb_readOnly t' = tb_readOnly t \<and>
    tb_data t' = tb_data t \<and>
    (\<not> tb_readOnly t \<longrightarrow>
       tb_keys t' = tb_keys t \<and>
       tb_columnReadOnly t' = tb_columnReadOnly t \<and>
       (\<exists>p q. tb_Point t = Some p \<and> tb_Point t' = Some q \<and>
          (case p of
             MEoS c \<Rightarrow> q = MEoS c
           | CoolProp ids \<Rightarrow> (\<exists>i. py_index ids 0 = Inr i \<and> q = CoolProp [i])
           | RefProp ids \<Rightarrow> (\<exists>i. py_index ids 0 = Inr i \<and> q = RefProp [i]))))"
proof -
  note W = writeToJSON_Inr [OF w]
  from W(5) obtain idx where
    idx: "collect (list_index (all0 @ [Dimensionless])) (tb_units t) = Inr idx"
    and ju: "js_unit data = map int idx" by blast
  have U: "collect (py_index ((all0 @ replicate k Dimensionless) @ [Dimensionless]))
             (js_unit data) = Inr (tb_units t)"
    unfolding ju by (rule units_read_back [OF idx])
  note H = header_collected [OF W(4)]
  have hdr: "(if c < tb_columnCount t \<and> c < length (js_htitle data)
              then Some (js_htitle data ! c) else None) = tb_hHeader t c"
    if "c < tb_columnCount t" for c
    using H that by simp
  show ?thesis
  proof (cases "tb_readOnly t")
    case True
    with W(6) have ro: "js_readOnly data" by simp
    note S = setData_fields [OF readFromJSON_readOnly [OF r U ro] TablaMEoS_init_fields(10)]
    have "tb_columnCount t' = tb_columnCount t"
      using S(2) W(2) by (simp add: TablaMEoS_init_fields)
    moreover have "tb_windowTitle t' = tb_windowTitle t"
      using S(3) W(3) by (simp add: TablaMEoS_init_fields)
    moreover have "\<forall>c < tb_columnCount t. tb_hHeader t' c = tb_hHeader t c"
      using S(4) W(2) hdr by (simp add: TablaMEoS_init_fields)
    moreover have "tb_units t' = tb_units t"
      using S(7) by (simp add: TablaMEoS_init_fields)
    moreover have "tb_format t' = tb_format t"
      using S(9) W(8) by (simp add: TablaMEoS_init_fields)
    moreover have "tb_orderUnit t' = tb_orderUnit t"
      using S(8) W(7) by (simp add: TablaMEoS_init_fields)
    moreover have "tb_readOnly t' = tb_readOnly t"
      using S(5) True by (simp add: TablaMEoS_init_fields)
    moreover have "tb_data t' = tb_data t"
      using S(1) W(9) by simp
    ultimately show ?thesis using True by simp
  next
    case False
    with W(6) have ro: "\<not> js_readOnly data" by simp
    from W(10) [OF False] obtain p mname fluid dependences keys where
      P: "tb_Point t = Some p" "write_Point mEoS_all p = Inr (mname, fluid, dependences)"
         "tb_keys t = Some keys" "js_method data = Some mname" "js_fluid data = Some fluid"
         "js_keys data = Some keys" "js_columnReadOnly data = Some (tb_columnReadOnly t)"
      by blast
    from readFromJSON_editable [OF r U ro] P(6,7) obtain t0 q where
      sd: "setData (js_data data)
        ((TablaMEoS_init (js_column data) (length (js_data data) + 1) False
            (Some (tb_columnReadOnly t)) (js_htitle data) (tb_units t) (js_orderUnit data)
            (js_format data) (Some keys))
         \<lparr>tb_windowTitle := js_title data\<rparr>) = Inr t0"
      and q: "read_Point mEoS_all data = Inr q" and t': "t' = t0\<lparr>tb_Point := Some q\<rparr>"
      by auto
    note S = setData_fields [OF sd TablaMEoS_init_fields(10)]
    from write_Point_read_back [OF P(2,4,5)] q have
      pq: "case p of
             MEoS c \<Rightarrow> q = MEoS c
           | CoolProp ids \<Rightarrow> (\<exists>i. py_index ids 0 = Inr i \<and> q = CoolProp [i])
           | RefProp ids \<Rightarrow> (\<exists>i. py_index ids 0 = Inr i \<and> q = RefProp [i])"
      by auto
    have "tb_columnCount t' = tb_columnCount t"
      using S(2) W(2) t' by (simp add: TablaMEoS_init_fields)
    moreover have "tb_windowTitle t' = tb_windowTitle t"
      using S(3) W(3) t' by (simp add: TablaMEoS_init_fields)
    moreover have "\<forall>c < tb_columnCount t. tb_hHeader t' c = tb_hHeader t c"
      using S(4) W(2) hdr t' by (simp add: TablaMEoS_init_fields)
    moreover have "tb_units t' = tb_units t"
      using S(7) t' by (simp add: TablaMEoS_init_fields)
    moreover have "tb_format t' = tb_format t"
      using S(9) W(8) t' by (simp add: TablaMEoS_init_fields)
    moreover have "tb_orderUnit t' = tb_orderUnit t"
      using S(8) W(7) t' by (simp add: TablaMEoS_init_fields)
    moreover have "tb_readOnly t' = tb_readOnly t"
      using S(5) False t' by (simp add: TablaMEoS_init_fields)
    moreover have "tb_data t' = tb_data t"
      using S(1) W(9) t' by simp
    moreover have "tb_keys t' = tb_keys t"
      using S(10) P(3) t' by (simp add: TablaMEoS_init_fields)
    moreover have "tb_columnReadOnly t' = tb_columnReadOnly t"
      using S(6) t' by (simp add: TablaMEoS_init_fields)
    moreover have "\<exists>p q. tb_Point t = Some p \<and> tb_Point t' = Some q \<and>
          (case p of
             MEoS c \<Rightarrow> q = MEoS c
           | CoolProp ids \<Rightarrow> (\<exists>i. py_index ids 0 = Inr i \<and> q = CoolProp [i])
           | RefProp ids \<Rightarrow> (\<exists>i. py_index ids 0 = Inr i \<and> q = RefProp [i]))"
      using P(1) pq t' by auto
    ultimately show ?thesis by simp
  qed
qed

lemma TablaMEoS_JSON_roundtrip_sample:
  "\<exists>all1 data all2 t'.
     TablaMEoS_writeToJSON ex_unidades_all ''Dimensionless'' ex_mEoS_all ex_tabla
       = Inr (all1, data) \<and>
     TablaMEoS_readFromJSON (ex_unidades_all @ replicate 0 ''Dimensionless'') ''Dimensionless''
       ex_mEoS_all data = Inr (all2, t') \<and>
     tb_columnCount t' = 2 \<and> tb_windowTitle t' = ''Table: water'' \<and>
     tb_hHeader t' 0 = Some ''T, K'' \<and> tb_hHeader t' 1 = Some ''x, [-]'' \<and>
     tb_units t' = [''Temperature'', ''Dimensionless''] \<and> tb_format t' = [6, 4] \<and>
     tb_orderUnit t' = [0, 0] \<and> \<not> tb_readOnly t' \<and> tb_data t' = [[CNum 300, CNum 1]] \<and>
     tb_keys t' = Some [''T'', ''x''] \<and> tb_columnReadOnly t' = [False, True] \<and>
     tb_Point t' = Some (MEoS \<lparr>cls_id = 62, cls_name = ''water''\<rparr>)"
proof -
  from ex_tabla_written obtain all1 data where
    w: "TablaMEoS_writeToJSON ex_unidades_all ''Dimensionless'' ex_mEoS_all ex_tabla
          = Inr (all1, data)" by blast
  have rows: "list_all (row_ok (tb_format ex_tabla)) (tb_data ex_tabla)"
    by (simp add: ex_tabla_def row_ok_def enumerate_eq_zip upt_two upt_rec)
  from readFromJSON_total [OF w rows, of 0] obtain all2 t' where
    r: "TablaMEoS_readFromJSON (ex_unidades_all @ replicate 0 ''Dimensionless'') ''Dimensionless''
          ex_mEoS_all data = Inr (all2, t')" by blast
  note t = TablaMEoS_JSON_roundtrip [OF w r]
  have "tb_columnCount t' = 2 \<and> tb_windowTitle t' = ''Table: water'' \<and>
     tb_hHeader t' 0 = Some ''T, K'' \<and> tb_hHeader t' 1 = Some ''x, [-]'' \<and>
     tb_units t' = [''Temperature'', ''Dimensionless''] \<and> tb_format t' = [6, 4] \<and>
     tb_orderUnit t' = [0, 0] \<and> \<not> tb_readOnly t' \<and> tb_data t' = [[CNum 300, CNum 1]] \<and>
     tb_keys t' = Some [''T'', ''x''] \<and> tb_columnReadOnly t' = [False, True] \<and>
     tb_Point t' = Some (MEoS \<lparr>cls_id = 62, cls_name = ''water''\<rparr>)"
    using t by (auto simp: ex_tabla_def)
  with w r show ?thesis by blast
qed

lemma writeToJSON_editable_without_Point:
  assumes "\<not> tb_readOnly t" "tb_Point t = None"
  shows "\<exists>err. TablaMEoS_writeToJSON all0 Dimensionless mEoS_all t = Inl err"
proof (cases "TablaMEoS_writeToJSON all0 Dimensionless mEoS_all t")
  case (Inl err)
  then show ?thesis by blast
next
  case (Inr r)
  obtain all1 data where "r = (all1, data)" by (cases r)
  with Inr writeToJSON_Inr(10) [of all0 Dimensionless mEoS_all t all1 data] assms
  show ?thesis by auto
qed

text \<open>
  C3: writing a table and reading it back should give an equal table for every
  \<^verbatim>\<open>TablaMEoS\<close>.  An editable table has a fluid only when its creator assigns
  \<^verbatim>\<open>Point\<close>, as \<^verbatim>\<open>addTableSpecified\<close> and \<^verbatim>\<open>readFromJSON\<close> do; \<^verbatim>\<open>addTable\<close> does not,
  and on the editable table it builds from an empty list of fluids \<^verbatim>\<open>writeToJSON\<close> reads
  the missing attribute and raises \<^verbatim>\<open>AttributeError\<close>: nothing is written, and there
  is nothing to read back.
\<close>

theorem TablaMEoS_writeToJSON_without_Point:
  "TablaMEoS_writeToJSON ex_unidades_all ''Dimensionless'' ex_mEoS_all ex_created_tabla
     = Inl AttributeError"
  by (simp add: TablaMEoS_writeToJSON_def ex_created_tabla_def TablaMEoS_init_def Tabla_init_def
      ex_unidades_all_def upt_two attribute_def and_then_def Let_def)

end
